theory Spec2Isabelle
  imports Complex_Main
begin

section \<open>Numbers, strings and errors\<close>

text \<open>
  A JavaScript \<open>number\<close> is modelled as an exact real: rounding of IEEE doubles is not
  represented, and the places where the code divides say what happens at a zero divisor.
  Counts produced by \<open>parseInt\<close> and array indices are natural numbers.
\<close>

type_synonym number = real

datatype error = TypeError | InvalidCharacterError

text \<open>The template literal \<open>`${i}`\<close> for a non-negative integer: its decimal digits.\<close>

definition digit_char :: "nat \<Rightarrow> char" where
  "digit_char d = ''0123456789'' ! d"

fun string_of_nat :: "nat \<Rightarrow> string" where
  "string_of_nat n =
     (if n < 10 then [digit_char n]
      else string_of_nat (n div 10) @ [digit_char (n mod 10)])"

declare string_of_nat.simps [simp del]

text \<open>
  \<open>parseInt\<close> on a string: the leading decimal digits are read, \<open>NaN\<close> when there is
  none. (Leading blanks, a sign and the \<open>0x\<close> prefix are not modelled; the strings parsed
  here are the phase table's keys with \<open>phase\<close> removed.)
\<close>

datatype parsed = NaN | Num nat

fun index_of :: "'a \<Rightarrow> 'a list \<Rightarrow> nat option" where
  "index_of a [] = None"
| "index_of a (x # xs) =
     (if a = x then Some 0 else (case index_of a xs of None \<Rightarrow> None | Some i \<Rightarrow> Some (Suc i)))"

definition digit_val :: "char \<Rightarrow> nat option" where
  "digit_val c = index_of c ''0123456789''"

fun parse_digits :: "nat option \<Rightarrow> string \<Rightarrow> nat option" where
  "parse_digits acc [] = acc"
| "parse_digits acc (c # cs) =
     (case digit_val c of
        None \<Rightarrow> acc
      | Some d \<Rightarrow> parse_digits (Some ((case acc of None \<Rightarrow> 0 | Some a \<Rightarrow> a) * 10 + d)) cs)"

definition parseInt :: "string \<Rightarrow> parsed" where
  "parseInt s = (case parse_digits None s of None \<Rightarrow> NaN | Some n \<Rightarrow> Num n)"

text \<open>\<open>s.replace(pat, rep)\<close> with a string pattern: the first occurrence only.\<close>

fun replace_first :: "string \<Rightarrow> string \<Rightarrow> string \<Rightarrow> string" where
  "replace_first pat rep [] = (if pat = [] then rep else [])"
| "replace_first pat rep (c # cs) =
     (if take (length pat) (c # cs) = pat then rep @ drop (length pat) (c # cs)
      else c # replace_first pat rep cs)"

section \<open>The staged reveal: phase table and timing\<close>

record AnimationPhase =
  nodes :: "string list"
  links :: "string list"
  delay :: number
  duration :: number

text \<open>
  \<open>ANIMATION_PHASES\<close> is a \<open>Record<string, AnimationPhase>\<close>; the association list keeps
  the insertion order that \<open>Object.entries\<close> enumerates.
\<close>

definition ANIMATION_PHASES :: "(string \<times> AnimationPhase) list" where
  "ANIMATION_PHASES =
    [(''phase1'', \<lparr>nodes = [''anaerobic-digester''], links = [], delay = 0, duration = 800\<rparr>),
     (''phase2'', \<lparr>nodes = [], links = [''link-house-to-ad'', ''link-plant-to-ad''],
        delay = 600, duration = 600\<rparr>),
     (''phase3'', \<lparr>nodes = [''pyrolysis-unit''], links = [], delay = 400, duration = 800\<rparr>),
     (''phase4'', \<lparr>nodes = [], links = [''link-ad-to-pyrolysis'', ''link-house-to-pyrolysis''],
        delay = 400, duration = 600\<rparr>),
     (''phase5'', \<lparr>nodes = [''rng-output'', ''co2-output'', ''syngas-output'', ''biochar-blend'',
        ''node-1765493578436-0lnym20wl''], links = [], delay = 300, duration = 600\<rparr>),
     (''phase6'', \<lparr>nodes = [], links = [''link-ad-to-rng'', ''link-ad-to-co2'',
        ''link-pyrolysis-to-syngas'', ''link-ad-to-blend'', ''link-blend-to-farm''],
        delay = 300, duration = 600\<rparr>)]"

definition phaseKey :: "nat \<Rightarrow> string" where
  "phaseKey i = ''phase'' @ string_of_nat i"

definition lookupPhase :: "nat \<Rightarrow> AnimationPhase option" where
  "lookupPhase i = map_of ANIMATION_PHASES (phaseKey i)"

text \<open>
  \<open>getNodePhase\<close> and \<open>getLinkPhase\<close>: the first phase, in table order, that names the
  identifier; \<open>None\<close> is \<open>null\<close>.
\<close>

fun findPhase :: "(AnimationPhase \<Rightarrow> string list) \<Rightarrow> (string \<times> AnimationPhase) list \<Rightarrow> string
    \<Rightarrow> parsed option" where
  "findPhase sel [] ident = None"
| "findPhase sel ((phaseName, phase) # rest) ident =
     (if ident \<in> set (sel phase) then Some (parseInt (replace_first ''phase'' '''' phaseName))
      else findPhase sel rest ident)"

definition getNodePhase :: "string \<Rightarrow> parsed option" where
  "getNodePhase nodeId = findPhase nodes ANIMATION_PHASES nodeId"

definition getLinkPhase :: "string \<Rightarrow> parsed option" where
  "getLinkPhase linkId = findPhase links ANIMATION_PHASES linkId"

text \<open>
  \<open>getPhaseStartTime\<close>: the loop \<open>for (i = 1; i < phaseNum; i++)\<close> reads
  \<open>phase.delay\<close> of a table entry, which throws a \<open>TypeError\<close> when the entry is
  missing; the read of the phase itself is guarded (\<open>currentPhase?.delay || 0\<close>).
\<close>

fun sumPrior :: "nat list \<Rightarrow> number \<Rightarrow> error + number" where
  "sumPrior [] totalDelay = Inr totalDelay"
| "sumPrior (i # rest) totalDelay =
     (case lookupPhase i of
        None \<Rightarrow> Inl TypeError
      | Some phase \<Rightarrow> sumPrior rest (totalDelay + (delay phase + duration phase)))"

definition getPhaseStartTime :: "nat \<Rightarrow> error + number" where
  "getPhaseStartTime phaseNum =
     (case sumPrior [1 ..< phaseNum] 0 of
        Inl e \<Rightarrow> Inl e
      | Inr totalDelay \<Rightarrow>
          Inr (totalDelay + (case lookupPhase phaseNum of None \<Rightarrow> 0 | Some currentPhase \<Rightarrow> delay currentPhase)))"

definition getTotalAnimationDuration :: "error + number" where
  "getTotalAnimationDuration = sumPrior [1 ..< 7] 0"

text \<open>The (delay, duration) pairs of the table, in order.\<close>

definition phaseTimes :: "(number \<times> number) list" where
  "phaseTimes = map (\<lambda>(k, p). (delay p, duration p)) ANIMATION_PHASES"

text \<open>
  The reveal schedule in the words of the specification, for comparison with what the
  renderer does: the phase that names an element is the first of the six phases whose
  list holds its identifier; phase N starts at the sum of delay + duration over the phases
  before it plus its own delay, and lasts its own duration.
\<close>

definition namedPhase :: "(AnimationPhase \<Rightarrow> string list) \<Rightarrow> string \<Rightarrow> nat option" where
  "namedPhase sel ident =
     List.find (\<lambda>k. case lookupPhase k of None \<Rightarrow> False | Some p \<Rightarrow> ident \<in> set (sel p))
       [1, 2, 3, 4, 5, 6]"

definition phaseStart :: "nat \<Rightarrow> number" where
  "phaseStart N =
     sum_list (map (\<lambda>(d, u). d + u) (take (N - 1) phaseTimes)) + fst (phaseTimes ! (N - 1))"

definition phaseDuration :: "nat \<Rightarrow> number" where
  "phaseDuration N = snd (phaseTimes ! (N - 1))"

section \<open>Diagram data\<close>

text \<open>
  \<open>DiagramNode\<close> and \<open>DiagramLink\<close> with the fields the renderer's geometry, timing and
  particle code reads (colours, icons and names only reach attributes of the drawing).
  An optional field is an \<open>option\<close>, \<open>None\<close> for \<open>undefined\<close>. The field
  \<open>particleConfig\<close> is the \<open>_particleConfig\<close> property that the link pass stores on the
  link object.
\<close>

record DiagramNode =
  node_id :: string
  node_x :: number
  node_y :: number
  node_width :: number
  node_height :: number

record ParticleConfig =
  pc_count :: number
  pc_size :: number
  pc_duration :: number

record DiagramLink =
  link_id :: string
  source :: string
  target :: string
  label :: "string option"
  labelPosition :: "number option"
  animationFrequency :: "number option"
  animationRate :: "number option"
  animationSize :: "number option"
  returnY :: "number option"
  particleConfig :: "ParticleConfig option"

text \<open>
  \<open>new Map(diagramData.nodes.map(node => [node.id, node]))\<close>: for a repeated identifier
  the last node wins.
\<close>

definition nodeMap :: "DiagramNode list \<Rightarrow> (string \<rightharpoonup> DiagramNode)" where
  "nodeMap ns = map_of (rev (map (\<lambda>node. (node_id node, node)) ns))"

section \<open>Path geometry\<close>

text \<open>
  The path string is kept as the sequence of its commands with their numeric arguments,
  in the order the template writes them; the empty string is the empty sequence.
\<close>

datatype cmd =
    M number number
  | L number number
  | Q number number number number
  | C number number number number number number

type_synonym path = "cmd list"

definition gap :: number where
  "gap = 30"

definition stagger :: "nat \<Rightarrow> number" where
  "stagger linkIndex = real linkIndex * 60"

definition loopY :: "DiagramLink \<Rightarrow> nat \<Rightarrow> number \<Rightarrow> number \<Rightarrow> number" where
  "loopY link linkIndex sy ty =
     (case returnY link of
        Some r \<Rightarrow> r
      | None \<Rightarrow> max sy ty + 100 + stagger linkIndex)"

definition sourceCurveDir :: "number \<Rightarrow> number \<Rightarrow> number" where
  "sourceCurveDir sy ly = (if sy < ly then 1 else - 1)"

definition targetCurveDir :: "number \<Rightarrow> number \<Rightarrow> number" where
  "targetCurveDir ty ly = (if ty < ly then - 1 else 1)"

definition loopPath :: "number \<Rightarrow> number \<Rightarrow> number \<Rightarrow> number \<Rightarrow> number \<Rightarrow> path" where
  "loopPath sx sy tx ty ly =
     (let sd = sourceCurveDir sy ly; td = targetCurveDir ty ly in
      [M sx sy,
       L (sx + gap) sy,
       Q (sx + gap + 20) sy (sx + gap + 20) (sy + 20 * sd),
       L (sx + gap + 20) (ly - 20 * sd),
       Q (sx + gap + 20) ly (sx + gap) ly,
       L (tx - gap) ly,
       Q (tx - gap - 20) ly (tx - gap - 20) (ly + 20 * td),
       L (tx - gap - 20) (ty - 20 * td),
       Q (tx - gap - 20) ty (tx - gap) ty,
       L tx ty])"

definition loopPathReverse :: "number \<Rightarrow> number \<Rightarrow> number \<Rightarrow> number \<Rightarrow> number \<Rightarrow> path" where
  "loopPathReverse sx sy tx ty ly =
     (let sd = sourceCurveDir sy ly; td = targetCurveDir ty ly in
      [M tx ty,
       L (tx - gap) ty,
       Q (tx - gap - 20) ty (tx - gap - 20) (ty - 20 * td),
       L (tx - gap - 20) (ly + 20 * td),
       Q (tx - gap - 20) ly (tx - gap) ly,
       L (sx + gap) ly,
       Q (sx + gap + 20) ly (sx + gap + 20) (ly - 20 * sd),
       L (sx + gap + 20) (sy + 20 * sd),
       Q (sx + gap + 20) sy (sx + gap) sy,
       L sx sy])"

definition forwardPath :: "number \<Rightarrow> number \<Rightarrow> number \<Rightarrow> number \<Rightarrow> path" where
  "forwardPath sx sy tx ty =
     (let midX = (sx + tx) / 2 in [M sx sy, C midX sy midX ty tx ty])"

text \<open>
  \<open>generateLinkPath(link, linkIndex, reverse)\<close> of the homepage diagram. The anchors are
  the source's right-centre and the target's left-centre; the loop-back branch is taken
  when \<open>tx < sx\<close>.
\<close>

definition generateLinkPath ::
    "(string \<rightharpoonup> DiagramNode) \<Rightarrow> DiagramLink \<Rightarrow> nat \<Rightarrow> bool \<Rightarrow> path" where
  "generateLinkPath nm link linkIndex reverse =
     (case nm (source link) of
        None \<Rightarrow> []
      | Some sourceNode \<Rightarrow>
         (case nm (target link) of
            None \<Rightarrow> []
          | Some targetNode \<Rightarrow>
             (let sx = node_x sourceNode + node_width sourceNode;
                  sy = node_y sourceNode + node_height sourceNode / 2;
                  tx = node_x targetNode;
                  ty = node_y targetNode + node_height targetNode / 2;
                  isReverse = tx < sx
              in if isReverse then
                   (let ly = loopY link linkIndex sy ty in
                    if reverse then loopPathReverse sx sy tx ty ly
                    else loopPath sx sy tx ty ly)
                 else forwardPath sx sy tx ty)))"

text \<open>
  The earlier version of the component computes one curve direction for both sides of the
  loop: upward when the loop height lies above both anchors.
\<close>

definition curveDir :: "number \<Rightarrow> number \<Rightarrow> number \<Rightarrow> number" where
  "curveDir sy ty ly = (let isAbove = ly < min sy ty in if isAbove then - 1 else 1)"

definition loopPath_v1 :: "number \<Rightarrow> number \<Rightarrow> number \<Rightarrow> number \<Rightarrow> number \<Rightarrow> path" where
  "loopPath_v1 sx sy tx ty ly =
     (let cd = curveDir sy ty ly in
      [M sx sy,
       L (sx + gap) sy,
       Q (sx + gap + 20) sy (sx + gap + 20) (sy + 20 * cd),
       L (sx + gap + 20) (ly - 20 * cd),
       Q (sx + gap + 20) ly (sx + gap) ly,
       L (tx - gap) ly,
       Q (tx - gap - 20) ly (tx - gap - 20) (ly - 20 * cd),
       L (tx - gap - 20) (ty + 20 * cd),
       Q (tx - gap - 20) ty (tx - gap) ty,
       L tx ty])"

definition loopPathReverse_v1 :: "number \<Rightarrow> number \<Rightarrow> number \<Rightarrow> number \<Rightarrow> number \<Rightarrow> path" where
  "loopPathReverse_v1 sx sy tx ty ly =
     (let cd = curveDir sy ty ly in
      [M tx ty,
       L (tx - gap) ty,
       Q (tx - gap - 20) ty (tx - gap - 20) (ty + 20 * cd),
       L (tx - gap - 20) (ly - 20 * cd),
       Q (tx - gap - 20) ly (tx - gap) ly,
       L (sx + gap) ly,
       Q (sx + gap + 20) ly (sx + gap + 20) (ly - 20 * cd),
       L (sx + gap + 20) (sy + 20 * cd),
       Q (sx + gap + 20) sy (sx + gap) sy,
       L sx sy])"

definition generateLinkPath_v1 ::
    "(string \<rightharpoonup> DiagramNode) \<Rightarrow> DiagramLink \<Rightarrow> nat \<Rightarrow> bool \<Rightarrow> path" where
  "generateLinkPath_v1 nm link linkIndex reverse =
     (case nm (source link) of
        None \<Rightarrow> []
      | Some sourceNode \<Rightarrow>
         (case nm (target link) of
            None \<Rightarrow> []
          | Some targetNode \<Rightarrow>
             (let sx = node_x sourceNode + node_width sourceNode;
                  sy = node_y sourceNode + node_height sourceNode / 2;
                  tx = node_x targetNode;
                  ty = node_y targetNode + node_height targetNode / 2;
                  isReverse = tx < sx
              in if isReverse then
                   (let ly = loopY link linkIndex sy ty in
                    if reverse then loopPathReverse_v1 sx sy tx ty ly
                    else loopPath_v1 sx sy tx ty ly)
                 else forwardPath sx sy tx ty)))"

text \<open>
  Reading a path back: the point a command ends at, the first and last point of a path,
  and the points a command passes through from the current point \<open>p\<close> (a straight segment,
  a quadratic or a cubic Bezier curve, for a parameter between 0 and 1).
\<close>

type_synonym point = "number \<times> number"

fun cmd_end :: "cmd \<Rightarrow> point" where
  "cmd_end (M a b) = (a, b)"
| "cmd_end (L a b) = (a, b)"
| "cmd_end (Q c1 c2 a b) = (a, b)"
| "cmd_end (C c1 c2 d1 d2 a b) = (a, b)"

definition path_start :: "path \<Rightarrow> point option" where
  "path_start p = (case p of M a b # rest \<Rightarrow> Some (a, b) | _ \<Rightarrow> None)"

definition path_end :: "path \<Rightarrow> point option" where
  "path_end p = (if p = [] then None else Some (cmd_end (last p)))"

fun cmd_point :: "point \<Rightarrow> cmd \<Rightarrow> number \<Rightarrow> point" where
  "cmd_point p (M a b) t = (a, b)"
| "cmd_point p (L a b) t = ((1 - t) * fst p + t * a, (1 - t) * snd p + t * b)"
| "cmd_point p (Q c1 c2 a b) t =
     ((1 - t)^2 * fst p + 2 * (1 - t) * t * c1 + t^2 * a,
      (1 - t)^2 * snd p + 2 * (1 - t) * t * c2 + t^2 * b)"
| "cmd_point p (C c1 c2 d1 d2 a b) t =
     ((1 - t)^3 * fst p + 3 * (1 - t)^2 * t * c1 + 3 * (1 - t) * t^2 * d1 + t^3 * a,
      (1 - t)^3 * snd p + 3 * (1 - t)^2 * t * c2 + 3 * (1 - t) * t^2 * d2 + t^3 * b)"

text \<open>
  \<open>on_path_from p cs q\<close>: drawing \<open>cs\<close> from the current point \<open>p\<close> passes through \<open>q\<close>.
  A path starts with a move; \<open>on_path cs q\<close> says that the traversal of \<open>cs\<close> passes
  through \<open>q\<close>.
\<close>

fun on_path_from :: "point \<Rightarrow> path \<Rightarrow> point \<Rightarrow> bool" where
  "on_path_from p [] q = False"
| "on_path_from p (c # cs) q =
     ((\<exists>t. 0 \<le> t \<and> t \<le> 1 \<and> cmd_point p c t = q) \<or> on_path_from (cmd_end c) cs q)"

fun on_path :: "path \<Rightarrow> point \<Rightarrow> bool" where
  "on_path (M a b # cs) q = (q = (a, b) \<or> on_path_from (a, b) cs q)"
| "on_path cs q = False"

text \<open>The horizontal coordinates a command mentions, and the letters of a path.\<close>

fun cmd_xs :: "cmd \<Rightarrow> number list" where
  "cmd_xs (M a b) = [a]"
| "cmd_xs (L a b) = [a]"
| "cmd_xs (Q c1 c2 a b) = [c1, a]"
| "cmd_xs (C c1 c2 d1 d2 a b) = [c1, d1, a]"

fun cmd_kind :: "cmd \<Rightarrow> char" where
  "cmd_kind (M a b) = CHR ''M''"
| "cmd_kind (L a b) = CHR ''L''"
| "cmd_kind (Q c1 c2 a b) = CHR ''Q''"
| "cmd_kind (C c1 c2 d1 d2 a b) = CHR ''C''"

definition path_kinds :: "path \<Rightarrow> string" where
  "path_kinds p = map cmd_kind p"

text \<open>
  The loop height of a loop-back route is the height of its horizontal traversal, the
  sixth command of the route.
\<close>

definition traverseY :: "path \<Rightarrow> number option" where
  "traverseY p = (case drop 5 p of L a b # rest \<Rightarrow> Some b | _ \<Rightarrow> None)"

text \<open>The anchors: the source's right-centre and the target's left-centre.\<close>

definition sourceAnchor :: "DiagramNode \<Rightarrow> point" where
  "sourceAnchor n = (node_x n + node_width n, node_y n + node_height n / 2)"

definition targetAnchor :: "DiagramNode \<Rightarrow> point" where
  "targetAnchor n = (node_x n, node_y n + node_height n / 2)"

section \<open>The render pass\<close>

text \<open>
  What one run of the drawing effect appends, as data: path definitions, one optional
  group per link, one group per node, the fitted transform and the particles. Attributes
  that are only presentation (colours, stroke width, classes) are left out.
\<close>

record Metadata =
  system :: string

record DiagramData =
  metadata :: "Metadata option"
  data_nodes :: "DiagramNode list"
  data_links :: "DiagramLink list"

record Transition =
  tr_delay :: number
  tr_duration :: number
  tr_opacity :: number

record LinkLabel =
  ll_href :: string
  ll_startOffset :: number
  ll_text :: string

record LinkGroup =
  lg_path :: path
  lg_opacity :: number
  lg_transition :: "Transition option"
  lg_label :: "LinkLabel option"

record NodeGroup =
  ng_opacity :: number
  ng_scale :: number
  ng_transition :: "Transition option"
  ng_pulse :: bool

record Particle =
  p_delay :: number
  p_duration :: number
  p_size :: number

text \<open>Truthiness of a \<open>string | null\<close>, of a phase number, and \<open>v || d\<close> on a number.\<close>

definition truthy_str :: "string option \<Rightarrow> bool" where
  "truthy_str s = (case s of None \<Rightarrow> False | Some v \<Rightarrow> v \<noteq> [])"

definition truthy_phase :: "parsed option \<Rightarrow> bool" where
  "truthy_phase ph = (case ph of Some (Num n) \<Rightarrow> n \<noteq> 0 | _ \<Rightarrow> False)"

definition or_default :: "number option \<Rightarrow> number \<Rightarrow> number" where
  "or_default v d = (case v of None \<Rightarrow> d | Some n \<Rightarrow> if n = 0 then d else n)"

definition systemContext :: "DiagramData \<Rightarrow> string" where
  "systemContext diagramData =
     (case metadata diagramData of
        None \<Rightarrow> ''current''
      | Some m \<Rightarrow> if system m = ''proposed'' then ''proposed'' else ''current'')"

definition shouldAnimate :: "bool \<Rightarrow> DiagramData \<Rightarrow> bool" where
  "shouldAnimate animateTransition diagramData =
     (animateTransition \<and> systemContext diagramData = ''proposed'')"

text \<open>The path definitions: one per link, and a reversed one for a loop-back link.\<close>

definition linkPathId :: "string \<Rightarrow> DiagramLink \<Rightarrow> string" where
  "linkPathId instanceId link = ''link-path-'' @ instanceId @ ''-'' @ link_id link"

definition isReverseLink :: "(string \<rightharpoonup> DiagramNode) \<Rightarrow> DiagramLink \<Rightarrow> bool" where
  "isReverseLink nm link =
     (case (nm (target link), nm (source link)) of
        (Some targetNode, Some sourceNode) \<Rightarrow>
          node_x targetNode < node_x sourceNode + node_width sourceNode
      | _ \<Rightarrow> False)"

definition defsFor :: "(string \<rightharpoonup> DiagramNode) \<Rightarrow> string \<Rightarrow> DiagramLink \<Rightarrow> nat
    \<Rightarrow> (string \<times> path) list" where
  "defsFor nm instanceId link index =
     (linkPathId instanceId link, generateLinkPath nm link index False) #
     (if isReverseLink nm link
      then [(linkPathId instanceId link @ ''-text'', generateLinkPath nm link index True)]
      else [])"

fun defsFrom :: "(string \<rightharpoonup> DiagramNode) \<Rightarrow> string \<Rightarrow> DiagramLink list \<Rightarrow> nat
    \<Rightarrow> (string \<times> path) list" where
  "defsFrom nm instanceId [] index = []"
| "defsFrom nm instanceId (link # rest) index =
     defsFor nm instanceId link index @ defsFrom nm instanceId rest (Suc index)"

text \<open>
  The link pass. One iteration either returns at once (an endpoint does not resolve) or
  appends a group and, for a positive particle count, stores the particle configuration
  on the link. The result pairs the contribution with the link as the iteration leaves it.
\<close>

definition linkBaseOpacity :: "string option \<Rightarrow> DiagramLink \<Rightarrow> number" where
  "linkBaseOpacity highlightedNode link =
     (if truthy_str highlightedNode
      then (if highlightedNode = Some (source link) \<or> highlightedNode = Some (target link)
            then 0.8 else 0.1)
      else 0.6)"

definition phaseTransition :: "parsed option \<Rightarrow> number \<Rightarrow> error + Transition" where
  "phaseTransition ph baseOpacity =
     (case ph of
        Some (Num n) \<Rightarrow>
          (case getPhaseStartTime n of
             Inl e \<Rightarrow> Inl e
           | Inr startTime \<Rightarrow>
               (case lookupPhase n of
                  None \<Rightarrow> Inl TypeError
                | Some phaseConfig \<Rightarrow>
                    Inr \<lparr>tr_delay = startTime, tr_duration = duration phaseConfig,
                         tr_opacity = baseOpacity\<rparr>))
      | _ \<Rightarrow> Inl TypeError)"

definition linkLabel :: "(string \<rightharpoonup> DiagramNode) \<Rightarrow> string \<Rightarrow> DiagramLink \<Rightarrow> LinkLabel option" where
  "linkLabel nm instanceId link =
     (case label link of
        None \<Rightarrow> None
      | Some text \<Rightarrow>
          if text = [] then None
          else Some \<lparr>ll_href = (if isReverseLink nm link then linkPathId instanceId link @ ''-text''
                                else linkPathId instanceId link),
                     ll_startOffset = (case labelPosition link of None \<Rightarrow> 0.5 | Some v \<Rightarrow> v) * 100,
                     ll_text = text\<rparr>)"

definition particleCount :: "DiagramLink \<Rightarrow> number" where
  "particleCount link = (case animationFrequency link of Some f \<Rightarrow> f | None \<Rightarrow> 3)"

definition linkDuration :: "DiagramLink \<Rightarrow> number" where
  "linkDuration link = (let animationRate = or_default (animationRate link) 3 in (11 - animationRate) * 2)"

definition storeParticleConfig :: "DiagramLink \<Rightarrow> DiagramLink" where
  "storeParticleConfig link =
     (if particleCount link > 0
      then link\<lparr>particleConfig :=
             Some \<lparr>pc_count = particleCount link, pc_size = or_default (animationSize link) 4,
                   pc_duration = linkDuration link\<rparr>\<rparr>
      else link)"

definition drawLink :: "(string \<rightharpoonup> DiagramNode) \<Rightarrow> string \<Rightarrow> bool \<Rightarrow> string option \<Rightarrow> DiagramLink
    \<Rightarrow> nat \<Rightarrow> error + (LinkGroup option \<times> DiagramLink)" where
  "drawLink nm instanceId anim highlightedNode link linkIndex =
     (if nm (source link) = None \<or> nm (target link) = None then Inr (None, link)
      else
        (let path = generateLinkPath nm link linkIndex False;
             linkPhase = getLinkPhase (link_id link);
             isAnimatedLink = (anim \<and> linkPhase \<noteq> None);
             baseOpacity = linkBaseOpacity highlightedNode link;
             initialOpacity = (if isAnimatedLink then 0 else baseOpacity)
         in case (if isAnimatedLink \<and> truthy_phase linkPhase
                  then map_sum id Some (phaseTransition linkPhase baseOpacity)
                  else Inr None) of
              Inl e \<Rightarrow> Inl e
            | Inr tr \<Rightarrow>
                Inr (Some \<lparr>lg_path = path, lg_opacity = initialOpacity, lg_transition = tr,
                           lg_label = linkLabel nm instanceId link\<rparr>,
                     storeParticleConfig link)))"

fun drawLinksFrom :: "(string \<rightharpoonup> DiagramNode) \<Rightarrow> string \<Rightarrow> bool \<Rightarrow> string option
    \<Rightarrow> DiagramLink list \<Rightarrow> nat \<Rightarrow> error + (LinkGroup option \<times> DiagramLink) list" where
  "drawLinksFrom nm instanceId anim highlightedNode [] linkIndex = Inr []"
| "drawLinksFrom nm instanceId anim highlightedNode (link # rest) linkIndex =
     (case drawLink nm instanceId anim highlightedNode link linkIndex of
        Inl e \<Rightarrow> Inl e
      | Inr r \<Rightarrow>
         (case drawLinksFrom nm instanceId anim highlightedNode rest (Suc linkIndex) of
            Inl e \<Rightarrow> Inl e
          | Inr rs \<Rightarrow> Inr (r # rs)))"

text \<open>The node pass.\<close>

definition isConnected :: "string option \<Rightarrow> DiagramLink list \<Rightarrow> DiagramNode \<Rightarrow> bool" where
  "isConnected highlightedNode ls node =
     (if truthy_str highlightedNode
      then (Some (node_id node) = highlightedNode \<or>
            list_ex (\<lambda>l. (Some (source l) = highlightedNode \<and> target l = node_id node) \<or>
                          (Some (target l) = highlightedNode \<and> source l = node_id node)) ls)
      else True)"

definition nodeBaseOpacity :: "string option \<Rightarrow> DiagramLink list \<Rightarrow> DiagramNode \<Rightarrow> number" where
  "nodeBaseOpacity highlightedNode ls node =
     (if isConnected highlightedNode ls node then 1 else 0.2)"

definition drawNode :: "bool \<Rightarrow> string option \<Rightarrow> DiagramLink list \<Rightarrow> DiagramNode \<Rightarrow> error + NodeGroup" where
  "drawNode anim highlightedNode ls node =
     (let nodePhase = getNodePhase (node_id node);
          isAnimatedNode = (anim \<and> nodePhase \<noteq> None);
          baseOpacity = nodeBaseOpacity highlightedNode ls node;
          initialOpacity = (if isAnimatedNode then 0 else baseOpacity);
          initialScale = (if isAnimatedNode then 0.3 else 1);
          shouldPulseNode = (anim \<and> (node_id node = ''anaerobic-digester'' \<or>
                                      node_id node = ''pyrolysis-unit''))
      in if isAnimatedNode \<and> truthy_phase nodePhase
         then (case phaseTransition nodePhase baseOpacity of
                 Inl e \<Rightarrow> Inl e
               | Inr tr \<Rightarrow>
                   (if shouldPulseNode
                    then (case getTotalAnimationDuration of
                            Inl e \<Rightarrow> Inl e
                          | Inr totalAnimationTime \<Rightarrow>
                              Inr \<lparr>ng_opacity = initialOpacity, ng_scale = initialScale,
                                   ng_transition = Some tr, ng_pulse = True\<rparr>)
                    else Inr \<lparr>ng_opacity = initialOpacity, ng_scale = initialScale,
                              ng_transition = Some tr, ng_pulse = False\<rparr>))
         else Inr \<lparr>ng_opacity = initialOpacity, ng_scale = initialScale,
                   ng_transition = None, ng_pulse = False\<rparr>)"

fun drawNodes :: "bool \<Rightarrow> string option \<Rightarrow> DiagramLink list \<Rightarrow> DiagramNode list
    \<Rightarrow> error + NodeGroup list" where
  "drawNodes anim highlightedNode ls [] = Inr []"
| "drawNodes anim highlightedNode ls (node # rest) =
     (case drawNode anim highlightedNode ls node of
        Inl e \<Rightarrow> Inl e
      | Inr g \<Rightarrow>
         (case drawNodes anim highlightedNode ls rest of
            Inl e \<Rightarrow> Inl e
          | Inr gs \<Rightarrow> Inr (g # gs)))"

text \<open>
  The viewport fit. The bounding box is measured by the browser once the scene is drawn,
  so it is an input here. The code does not guard the divisions: for a box of zero width
  or height it goes on with \<open>Infinity\<close>, \<open>-Infinity\<close> or \<open>NaN\<close>. The arithmetic of the
  fit is therefore written over the reals extended by these three values, with the
  operations the code uses: a quotient of two finite numbers, \<open>Math.min\<close>, a product
  with a finite factor and a difference. (The box's sides are never negative zero.) The
  fit is \<open>NonFinite\<close> when a component of the transform written to the group is not a
  finite number.
\<close>

datatype xnum = Fin number | PInf | NInf | NotNumber

definition x_div :: "number \<Rightarrow> number \<Rightarrow> xnum" where
  "x_div a b =
     (if b \<noteq> 0 then Fin (a / b)
      else if 0 < a then PInf else if a < 0 then NInf else NotNumber)"

fun x_min :: "xnum \<Rightarrow> xnum \<Rightarrow> xnum" where
  "x_min NotNumber v = NotNumber"
| "x_min u NotNumber = NotNumber"
| "x_min NInf v = NInf"
| "x_min u NInf = NInf"
| "x_min PInf v = v"
| "x_min u PInf = u"
| "x_min (Fin a) (Fin b) = Fin (min a b)"

fun x_mul :: "number \<Rightarrow> xnum \<Rightarrow> xnum" where
  "x_mul c (Fin a) = Fin (c * a)"
| "x_mul c PInf = (if 0 < c then PInf else if c < 0 then NInf else NotNumber)"
| "x_mul c NInf = (if 0 < c then NInf else if c < 0 then PInf else NotNumber)"
| "x_mul c NotNumber = NotNumber"

fun x_sub :: "xnum \<Rightarrow> xnum \<Rightarrow> xnum" where
  "x_sub NotNumber v = NotNumber"
| "x_sub u NotNumber = NotNumber"
| "x_sub (Fin a) (Fin b) = Fin (a - b)"
| "x_sub (Fin a) PInf = NInf"
| "x_sub (Fin a) NInf = PInf"
| "x_sub PInf PInf = NotNumber"
| "x_sub PInf v = PInf"
| "x_sub NInf NInf = NotNumber"
| "x_sub NInf v = NInf"

record BBox =
  bbox_x :: number
  bbox_y :: number
  bbox_width :: number
  bbox_height :: number

record Transform =
  translateX :: number
  translateY :: number
  scale :: number

datatype fit = NoBBox | NonFinite | Fit Transform

definition padding :: number where
  "padding = 20"

definition fitViewport :: "number \<Rightarrow> number \<Rightarrow> BBox option \<Rightarrow> fit" where
  "fitViewport width height bbox =
     (case bbox of
        None \<Rightarrow> NoBBox
      | Some b \<Rightarrow>
          (let scaleX = x_div (width - padding) (bbox_width b);
               scaleY = x_div (height - padding) (bbox_height b);
               sc = x_mul 0.95 (x_min scaleX scaleY);
               scaledWidth = x_mul (bbox_width b) sc;
               scaledHeight = x_mul (bbox_height b) sc;
               tx = x_sub (x_mul (1 / 2) (x_sub (Fin width) scaledWidth)) (x_mul (bbox_x b) sc);
               ty = x_sub (x_mul (1 / 2) (x_sub (Fin height) scaledHeight)) (x_mul (bbox_y b) sc)
           in case (tx, ty, sc) of
                (Fin a, Fin c, Fin s) \<Rightarrow> Fit \<lparr>translateX = a, translateY = c, scale = s\<rparr>
              | _ \<Rightarrow> NonFinite))"

text \<open>
  Particles, created after the fit and only when there is a bounding box: for a link with
  a stored configuration, \<open>for (i = 0; i < count; i++)\<close> with
  \<open>delay = (i / count) * duration\<close>, both in seconds.
\<close>

definition particleDelays :: "number \<Rightarrow> number \<Rightarrow> number list" where
  "particleDelays count dur = map (\<lambda>i. (real i / count) * dur) [0 ..< nat \<lceil>count\<rceil>]"

definition particlesFor :: "DiagramLink \<Rightarrow> Particle list" where
  "particlesFor link =
     (case particleConfig link of
        None \<Rightarrow> []
      | Some config \<Rightarrow>
          map (\<lambda>d. \<lparr>p_delay = d, p_duration = pc_duration config, p_size = pc_size config\<rparr>)
              (particleDelays (pc_count config) (pc_duration config)))"

record Scene =
  sc_defs :: "(string \<times> path) list"
  sc_links :: "LinkGroup option list"
  sc_nodes :: "NodeGroup list"
  sc_fit :: fit
  sc_particles :: "Particle list list"

definition render :: "DiagramData \<Rightarrow> number \<Rightarrow> number \<Rightarrow> string \<Rightarrow> bool \<Rightarrow> string option
    \<Rightarrow> BBox option \<Rightarrow> error + Scene" where
  "render diagramData width height instanceId animateTransition highlightedNode bbox =
     (let anim = shouldAnimate animateTransition diagramData;
          nm = nodeMap (data_nodes diagramData);
          ls = data_links diagramData
      in case drawLinksFrom nm instanceId anim highlightedNode ls 0 of
           Inl e \<Rightarrow> Inl e
         | Inr drawn \<Rightarrow>
            (case drawNodes anim highlightedNode ls (data_nodes diagramData) of
               Inl e \<Rightarrow> Inl e
             | Inr ngs \<Rightarrow>
                 Inr \<lparr>sc_defs = defsFrom nm instanceId ls 0,
                      sc_links = map fst drawn,
                      sc_nodes = ngs,
                      sc_fit = fitViewport width height bbox,
                      sc_particles = (if bbox = None then map (\<lambda>r. []) drawn
                                      else map (\<lambda>r. particlesFor (snd r)) drawn)\<rparr>))"



section \<open>The request gate\<close>

text \<open>
  \<open>s.split(sep)\<close> for a one-character separator, and reading an array position that may
  be absent.
\<close>

fun split_on :: "char \<Rightarrow> string \<Rightarrow> string list" where
  "split_on sep [] = [Nil]"
| "split_on sep (c # cs) =
     (if c = sep then [] # split_on sep cs
      else (case split_on sep cs of
              [] \<Rightarrow> [c # Nil]
            | w # ws \<Rightarrow> (c # w) # ws))"

fun nth_opt :: "'a list \<Rightarrow> nat \<Rightarrow> 'a option" where
  "nth_opt [] n = None"
| "nth_opt (x # xs) 0 = Some x"
| "nth_opt (x # xs) (Suc n) = nth_opt xs n"

text \<open>
  \<open>atob\<close> is the platform's forgiving base64 decoder: ASCII whitespace is dropped, one or
  two trailing \<open>=\<close> are dropped when the length is a multiple of four, a remaining length
  of one modulo four or a character outside the alphabet is an
  \<open>InvalidCharacterError\<close>, and every four characters give three bytes (a rest of two or
  three characters gives one or two). An absent argument is first turned into the string
  \<open>undefined\<close>.
\<close>

definition b64_alphabet :: string where
  "b64_alphabet = ''ABCDEFGHIJKLMNOPQRSTUVWXYZabcdefghijklmnopqrstuvwxyz0123456789+/''"

definition ascii_whitespace :: "char \<Rightarrow> bool" where
  "ascii_whitespace c = (c \<in> set [CHR 0x09, CHR 0x0A, CHR 0x0C, CHR 0x0D, CHR '' ''])"

definition strip_padding :: "string \<Rightarrow> string" where
  "strip_padding s =
     (if length s mod 4 = 0 then
        (if 2 \<le> length s \<and> drop (length s - 2) s = ''=='' then take (length s - 2) s
         else if 1 \<le> length s \<and> drop (length s - 1) s = ''='' then take (length s - 1) s
         else s)
      else s)"

fun sextets :: "string \<Rightarrow> nat list option" where
  "sextets [] = Some []"
| "sextets (c # cs) =
     (case index_of c b64_alphabet of
        None \<Rightarrow> None
      | Some v \<Rightarrow> (case sextets cs of None \<Rightarrow> None | Some vs \<Rightarrow> Some (v # vs)))"

fun decode_sextets :: "nat list \<Rightarrow> nat list" where
  "decode_sextets (a # b # c # d # rest) =
     (let n = ((a * 64 + b) * 64 + c) * 64 + d
      in (n div 65536) # ((n div 256) mod 256) # (n mod 256) # decode_sextets rest)"
| "decode_sextets [a, b, c] =
     (let n = ((a * 64 + b) * 64 + c) div 4 in [n div 256, n mod 256])"
| "decode_sextets [a, b] = [(a * 64 + b) div 16]"
| "decode_sextets [a] = []"
| "decode_sextets [] = []"

definition atob :: "string \<Rightarrow> error + string" where
  "atob s =
     (let d = strip_padding (filter (\<lambda>c. \<not> ascii_whitespace c) s)
      in if length d mod 4 = 1 then Inl InvalidCharacterError
         else (case sextets d of
                 None \<Rightarrow> Inl InvalidCharacterError
               | Some vs \<Rightarrow> Inr (map char_of (decode_sextets vs))))"

definition js_string :: "string option \<Rightarrow> string" where
  "js_string v = (case v of None \<Rightarrow> ''undefined'' | Some s \<Rightarrow> s)"

text \<open>
  The middleware. \<open>authorization\<close> is what \<open>request.headers.get('authorization')\<close> returns
  (\<open>None\<close> for \<open>null\<close>); the response either lets the request through or rewrites it to
  the URL with the new path.
\<close>

record Url =
  pathname :: string
  search :: string

record NextRequest =
  authorization :: "string option"
  nextUrl :: Url

datatype NextResponse = Next | Rewrite Url

definition rewriteToAuth :: "NextRequest \<Rightarrow> NextResponse" where
  "rewriteToAuth request = Rewrite ((nextUrl request)\<lparr>pathname := ''/api/auth''\<rparr>)"

text \<open>
  \<open>authValue\<close> is \<open>basicAuth.split(' ')[1]\<close>; \<open>userPwd\<close> is the destructuring
  \<open>[user, pwd] = decoded.split(':')\<close>, which reads the first two fields.
\<close>

definition authValue :: "string \<Rightarrow> string option" where
  "authValue basicAuth = nth_opt (split_on CHR '' '' basicAuth) 1"

definition userPwd :: "string \<Rightarrow> string option \<times> string option" where
  "userPwd decoded = (let parts = split_on CHR '':'' decoded in (nth_opt parts 0, nth_opt parts 1))"

definition middleware :: "NextRequest \<Rightarrow> error + NextResponse" where
  "middleware request =
     (case authorization request of
        None \<Rightarrow> Inr (rewriteToAuth request)
      | Some basicAuth \<Rightarrow>
          if basicAuth = [] then Inr (rewriteToAuth request)
          else
            (case atob (js_string (authValue basicAuth)) of
               Inl e \<Rightarrow> Inl e
             | Inr decoded \<Rightarrow>
                 (case userPwd decoded of
                    (user, pwd) \<Rightarrow>
                      if user = Some ''calvin'' \<and> pwd = Some ''calvin123''
                      then Inr Next
                      else Inr (rewriteToAuth request))))"

text \<open>
  The tokens of a header value when it is cut at runs of ASCII whitespace (the reading
  "whitespace-separated" of the header, for comparison with the single-space split).
\<close>

fun split_where :: "(char \<Rightarrow> bool) \<Rightarrow> string \<Rightarrow> string list" where
  "split_where P [] = [Nil]"
| "split_where P (c # cs) =
     (if P c then [] # split_where P cs
      else (case split_where P cs of
              [] \<Rightarrow> [c # Nil]
            | w # ws \<Rightarrow> (c # w) # ws))"

definition whitespace_tokens :: "string \<Rightarrow> string list" where
  "whitespace_tokens s = filter (\<lambda>w. w \<noteq> []) (split_where ascii_whitespace s)"

section \<open>Example data\<close>

text \<open>
  Two nodes of size 100 by 100: \<open>A\<close> with its right edge at 100 and centre height 50,
  \<open>B\<close> with its left edge at 40 and centre height 200; \<open>B'\<close> is \<open>B\<close> moved so that its left
  edge touches the right edge of \<open>A\<close>. The link has no optional field set.
\<close>

definition node_A :: DiagramNode where
  "node_A = \<lparr>node_id = ''A'', node_x = 0, node_y = 0, node_width = 100, node_height = 100\<rparr>"

definition node_B :: DiagramNode where
  "node_B = \<lparr>node_id = ''B'', node_x = 40, node_y = 150, node_width = 100, node_height = 100\<rparr>"

definition node_B' :: DiagramNode where
  "node_B' = \<lparr>node_id = ''B'', node_x = 100, node_y = 150, node_width = 100, node_height = 100\<rparr>"

definition plain_link :: "string \<Rightarrow> string \<Rightarrow> string \<Rightarrow> DiagramLink" where
  "plain_link i s t =
     \<lparr>link_id = i, source = s, target = t, label = None, labelPosition = None,
      animationFrequency = None, animationRate = None, animationSize = None,
      returnY = None, particleConfig = None\<rparr>"

definition link_AB :: DiagramLink where
  "link_AB = plain_link ''A-B'' ''A'' ''B''"

text \<open>
  A diagram with a node and a link that the phase table names: the node \<open>A\<close> under the
  identifier \<open>pyrolysis-unit\<close> (phase 3) and a link to \<open>B\<close> under the identifier
  \<open>link-ad-to-pyrolysis\<close> (phase 4); its \<open>system\<close> tag is a parameter.
\<close>

definition reveal_data :: "string \<Rightarrow> DiagramData" where
  "reveal_data sys =
     \<lparr>metadata = Some \<lparr>system = sys\<rparr>,
      data_nodes = [node_A\<lparr>node_id := ''pyrolysis-unit''\<rparr>, node_B],
      data_links = [plain_link ''link-ad-to-pyrolysis'' ''pyrolysis-unit'' ''B'']\<rparr>"

definition unit_box :: BBox where
  "unit_box = \<lparr>bbox_x = 0, bbox_y = 0, bbox_width = 100, bbox_height = 100\<rparr>"

definition request_with :: "string option \<Rightarrow> NextRequest" where
  "request_with h = \<lparr>authorization = h, nextUrl = \<lparr>pathname = ''/'', search = []\<rparr>\<rparr>"




section \<open>Phase timing\<close>

lemma phaseTimes_eq:
  "phaseTimes = [(0, 800), (600, 600), (400, 800), (400, 600), (300, 600), (300, 600)]"
  by (simp add: phaseTimes_def ANIMATION_PHASES_def)

lemma phase_starts:
  "getPhaseStartTime (Suc 0) = Inr 0" "getPhaseStartTime 2 = Inr 1400"
  "getPhaseStartTime 3 = Inr 2400" "getPhaseStartTime 4 = Inr 3600"
  "getPhaseStartTime 5 = Inr 4500" "getPhaseStartTime 6 = Inr 5400"
  by code_simp+

text \<open>
  C2 (as amended). The table's (delay, duration) pairs are (0,800), (600,600), (400,800),
  (400,600), (300,600), (300,600); for each phase N from 1 to 6 the start time returned by
  \<open>getPhaseStartTime\<close> is the sum of delay + duration over the phases before N plus the
  delay of phase N; for phase 4 this is 800 + 1200 + 1200 + 400 = 3600 ms.
\<close>

theorem phase_start_time:
  "phaseTimes = [(0, 800), (600, 600), (400, 800), (400, 600), (300, 600), (300, 600)] \<and>
   (\<forall>N. 1 \<le> N \<and> N \<le> 6 \<longrightarrow>
      getPhaseStartTime N =
        Inr (sum_list (map (\<lambda>(d, u). d + u) (take (N - 1) phaseTimes)) +
             fst (phaseTimes ! (N - 1)))) \<and>
   getPhaseStartTime 4 = Inr 3600"
proof (intro conjI allI impI)
  show "phaseTimes = [(0, 800), (600, 600), (400, 800), (400, 600), (300, 600), (300, 600)]"
    by (rule phaseTimes_eq)
  show "getPhaseStartTime 4 = Inr 3600"
    by (rule phase_starts)
  fix N :: nat
  assume "1 \<le> N \<and> N \<le> 6"
  then consider "N = 1" | "N = 2" | "N = 3" | "N = 4" | "N = 5" | "N = 6"
    by arith
  then show "getPhaseStartTime N =
        Inr (sum_list (map (\<lambda>(d, u). d + u) (take (N - 1) phaseTimes)) +
             fst (phaseTimes ! (N - 1)))"
    by cases (simp_all add: phase_starts phaseTimes_eq)
qed

theorem phase_start_time_witness:
  "(1::nat) \<le> 4 \<and> (4::nat) \<le> 6 \<and>
   getPhaseStartTime 4 =
     Inr (sum_list (map (\<lambda>(d, u). d + u) (take (4 - 1) phaseTimes)) + fst (phaseTimes ! (4 - 1)))"
  using phase_start_time [THEN conjunct2, THEN conjunct1, rule_format, of 4] by simp

text \<open>The start time of phase 4 is not 3000 ms: the sum 800+600+400+800+400 leaves out
  the 600 ms duration of phase 2.\<close>

theorem phase4_start_not_3000:
  "getPhaseStartTime 4 \<noteq> Inr 3000"
  by (simp add: phase_starts)

lemma generateLinkPath_resolved:
  assumes "nm (source link) = Some s" "nm (target link) = Some t"
  shows "generateLinkPath nm link i r =
     (if fst (targetAnchor t) < fst (sourceAnchor s)
      then (if r then loopPathReverse (fst (sourceAnchor s)) (snd (sourceAnchor s))
                        (fst (targetAnchor t)) (snd (targetAnchor t))
                        (loopY link i (snd (sourceAnchor s)) (snd (targetAnchor t)))
            else loopPath (fst (sourceAnchor s)) (snd (sourceAnchor s))
                        (fst (targetAnchor t)) (snd (targetAnchor t))
                        (loopY link i (snd (sourceAnchor s)) (snd (targetAnchor t))))
      else forwardPath (fst (sourceAnchor s)) (snd (sourceAnchor s))
                        (fst (targetAnchor t)) (snd (targetAnchor t)))"
  using assms by (simp add: generateLinkPath_def sourceAnchor_def targetAnchor_def Let_def)

section \<open>Link paths\<close>

text \<open>
  C5. For a link whose source and target both resolve, the primary (non-reversed) path
  starts exactly at the source's right-centre anchor and ends exactly at the target's
  left-centre anchor, in the forward and in the loop-back case, for every link index and
  whatever the loop height is.
\<close>

theorem path_endpoints:
  assumes "nm (source link) = Some s" "nm (target link) = Some t"
  shows "path_start (generateLinkPath nm link i False) = Some (sourceAnchor s) \<and>
         path_end (generateLinkPath nm link i False) = Some (targetAnchor t)"
  by (simp add: generateLinkPath_resolved [OF assms] loopPath_def forwardPath_def
      path_start_def path_end_def Let_def)

lemma example_nodes:
  "nodeMap [node_A, node_B] ''A'' = Some node_A" "nodeMap [node_A, node_B] ''B'' = Some node_B"
  "nodeMap [node_A, node_B'] ''A'' = Some node_A" "nodeMap [node_A, node_B'] ''B'' = Some node_B'"
  "nodeMap [node_A, node_B] ''Z'' = None"
  by (simp_all add: nodeMap_def node_A_def node_B_def node_B'_def)

lemma example_link:
  "source link_AB = ''A''" "target link_AB = ''B''" "returnY link_AB = None"
  "particleConfig link_AB = None"
  by (simp_all add: link_AB_def plain_link_def)

lemma example_resolves:
  "nodeMap [node_A, node_B] (source link_AB) = Some node_A"
  "nodeMap [node_A, node_B] (target link_AB) = Some node_B"
  "nodeMap [node_A, node_B'] (source link_AB) = Some node_A"
  "nodeMap [node_A, node_B'] (target link_AB) = Some node_B'"
  by (simp_all add: example_nodes example_link)

lemma example_anchors:
  "sourceAnchor node_A = (100, 50)" "targetAnchor node_B = (40, 200)"
  "targetAnchor node_B' = (100, 200)"
  by (simp_all add: sourceAnchor_def targetAnchor_def node_A_def node_B_def node_B'_def)

lemma example_touching_path:
  "generateLinkPath (nodeMap [node_A, node_B']) link_AB 0 False =
     [M 100 50, C 100 50 100 200 100 200]"
  using generateLinkPath_resolved [of "nodeMap [node_A, node_B']" link_AB node_A node_B' 0 False]
  by (simp add: example_nodes example_link example_anchors forwardPath_def)

lemma example_loop_path:
  "generateLinkPath (nodeMap [node_A, node_B]) link_AB 0 False =
     [M 100 50, L 130 50, Q 150 50 150 70, L 150 280, Q 150 300 130 300, L 10 300,
      Q (- 10) 300 (- 10) 280, L (- 10) 220, Q (- 10) 200 10 200, L 40 200]"
  using generateLinkPath_resolved [of "nodeMap [node_A, node_B]" link_AB node_A node_B 0 False]
  by (simp add: example_nodes example_link example_anchors loopPath_def loopY_def stagger_def
      gap_def sourceCurveDir_def targetCurveDir_def)

theorem path_endpoints_witness:
  "nodeMap [node_A, node_B] (source link_AB) = Some node_A \<and>
   nodeMap [node_A, node_B] (target link_AB) = Some node_B \<and>
   path_start (generateLinkPath (nodeMap [node_A, node_B]) link_AB 2 False) = Some (100, 50) \<and>
   path_end (generateLinkPath (nodeMap [node_A, node_B]) link_AB 2 False) = Some (40, 200) \<and>
   path_start (generateLinkPath (nodeMap [node_A, node_B']) link_AB 2 False) = Some (100, 50) \<and>
   path_end (generateLinkPath (nodeMap [node_A, node_B']) link_AB 2 False) = Some (100, 200)"
  using path_endpoints [of "nodeMap [node_A, node_B]" link_AB node_A node_B 2]
    path_endpoints [of "nodeMap [node_A, node_B']" link_AB node_A node_B' 2]
  by (simp add: example_nodes example_link example_anchors)

text \<open>
  C4 (as amended). For a link whose source and target both resolve: when the target's x
  position is at or to the right of the source's right edge, the path is a single cubic
  Bezier curve between the anchors with both control points at the horizontal midpoint;
  when it is strictly to the left of the source's right edge, the path is the ten-command
  rectilinear loop-back route.
\<close>

theorem path_branch:
  assumes "nm (source link) = Some s" "nm (target link) = Some t"
  shows "(node_x s + node_width s \<le> node_x t \<longrightarrow>
            generateLinkPath nm link i False =
              [M (fst (sourceAnchor s)) (snd (sourceAnchor s)),
               C ((fst (sourceAnchor s) + fst (targetAnchor t)) / 2) (snd (sourceAnchor s))
                 ((fst (sourceAnchor s) + fst (targetAnchor t)) / 2) (snd (targetAnchor t))
                 (fst (targetAnchor t)) (snd (targetAnchor t))]) \<and>
         (node_x t < node_x s + node_width s \<longrightarrow>
            path_kinds (generateLinkPath nm link i False) = ''MLQLQLQLQL'' \<and>
            generateLinkPath nm link i False =
              loopPath (fst (sourceAnchor s)) (snd (sourceAnchor s))
                       (fst (targetAnchor t)) (snd (targetAnchor t))
                       (loopY link i (snd (sourceAnchor s)) (snd (targetAnchor t))))"
  by (simp add: generateLinkPath_resolved [OF assms] loopPath_def forwardPath_def
      path_kinds_def Let_def sourceAnchor_def targetAnchor_def)

theorem path_branch_witness:
  "path_kinds (generateLinkPath (nodeMap [node_A, node_B]) link_AB 0 False) = ''MLQLQLQLQL'' \<and>
   generateLinkPath (nodeMap [node_A, node_B']) link_AB 0 False =
     [M 100 50, C 100 50 100 200 100 200]"
proof -
  have c: "node_x node_B < node_x node_A + node_width node_A"
    "node_x node_A + node_width node_A \<le> node_x node_B'"
    by (simp_all add: node_A_def node_B_def node_B'_def)
  have 1: "path_kinds (generateLinkPath (nodeMap [node_A, node_B]) link_AB 0 False) = ''MLQLQLQLQL''"
    by (rule path_branch [OF example_resolves(1,2), of 0, THEN conjunct2, rule_format,
          OF c(1), THEN conjunct1])
  have 2: "generateLinkPath (nodeMap [node_A, node_B']) link_AB 0 False =
     [M 100 50, C 100 50 100 200 100 200]"
    using path_branch [OF example_resolves(3,4), of 0, THEN conjunct1, rule_format, OF c(2)]
    by (simp add: example_anchors)
  from 1 2 show ?thesis by simp
qed

text \<open>
  A target whose left edge is exactly at the source's right edge is "at or left of" it,
  and still gets the single cubic curve, not the loop-back route.
\<close>

theorem path_branch_touching_counterexample:
  "node_x node_B' \<le> node_x node_A + node_width node_A \<and>
   path_kinds (generateLinkPath (nodeMap [node_A, node_B']) link_AB 0 False) = ''MC'' \<and>
   path_kinds (generateLinkPath (nodeMap [node_A, node_B']) link_AB 0 False) \<noteq> ''MLQLQLQLQL''"
proof -
  have "node_x node_B' \<le> node_x node_A + node_width node_A"
    by (simp add: node_A_def node_B'_def)
  then show ?thesis by (simp add: example_touching_path path_kinds_def)
qed

text \<open>
  C7. For two loop-back links on the same source and target, neither with an explicit
  \<open>returnY\<close>, at consecutive indices i and i + 1 of the links array: the loop height of
  the first is max(source anchor y, target anchor y) + 100 + 60 i, and the loop height of
  the second is exactly 60 more.
\<close>

theorem stagger_step:
  assumes "nm (source l1) = Some s" "nm (target l1) = Some t"
    and "source l2 = source l1" "target l2 = target l1"
    and "returnY l1 = None" "returnY l2 = None"
    and "node_x t < node_x s + node_width s"
  shows "traverseY (generateLinkPath nm l1 i False) =
           Some (max (snd (sourceAnchor s)) (snd (targetAnchor t)) + 100 + real i * 60) \<and>
         traverseY (generateLinkPath nm l2 (Suc i) False) =
           Some (max (snd (sourceAnchor s)) (snd (targetAnchor t)) + 100 + real i * 60 + 60)"
  using assms
  by (simp add: generateLinkPath_def loopPath_def traverseY_def loopY_def stagger_def
      Let_def sourceAnchor_def targetAnchor_def algebra_simps)

theorem stagger_step_witness:
  "node_x node_B < node_x node_A + node_width node_A \<and>
   traverseY (generateLinkPath (nodeMap [node_A, node_B]) link_AB 3 False) = Some 480 \<and>
   traverseY (generateLinkPath (nodeMap [node_A, node_B]) (plain_link ''A-B-2'' ''A'' ''B'') 4 False)
     = Some 540"
proof -
  have c: "node_x node_B < node_x node_A + node_width node_A"
    by (simp add: node_A_def node_B_def)
  have l: "source (plain_link ''A-B-2'' ''A'' ''B'') = source link_AB"
    "target (plain_link ''A-B-2'' ''A'' ''B'') = target link_AB"
    "returnY (plain_link ''A-B-2'' ''A'' ''B'') = None"
    by (simp_all add: plain_link_def link_AB_def)
  from stagger_step [of "nodeMap [node_A, node_B]" link_AB node_A node_B
      "plain_link ''A-B-2'' ''A'' ''B''" 3, OF _ _ l(1,2) _ l(3) c]
  have "traverseY (generateLinkPath (nodeMap [node_A, node_B]) link_AB 3 False) = Some 480 \<and>
    traverseY (generateLinkPath (nodeMap [node_A, node_B]) (plain_link ''A-B-2'' ''A'' ''B'') 4 False)
     = Some 540"
    by (simp add: example_nodes example_link example_anchors)
  with c show ?thesis by simp
qed

section \<open>The traversal of a path\<close>

lemma cmd_point_end: "cmd_point p c 1 = cmd_end c"
  by (cases c) simp_all

lemma on_path_from_end: "c \<in> set cs \<Longrightarrow> on_path_from p cs (cmd_end c)"
proof (induction cs arbitrary: p)
  case Nil
  then show ?case by simp
next
  case (Cons d ds)
  show ?case
  proof (cases "c = d")
    case True
    have "\<exists>t. 0 \<le> t \<and> t \<le> 1 \<and> cmd_point p d t = cmd_end d"
      by (rule exI [of _ 1]) (simp add: cmd_point_end)
    then show ?thesis unfolding True on_path_from.simps by (rule disjI1)
  next
    case False
    with Cons.prems have "c \<in> set ds" by simp
    then show ?thesis using Cons.IH by simp
  qed
qed

lemma on_path_end: "c \<in> set cs \<Longrightarrow> on_path (M a b # cs) (cmd_end c)"
  by (simp add: on_path_from_end)

lemma convex2:
  fixes m :: real
  assumes "0 \<le> t" "t \<le> 1" "m \<le> a" "m \<le> b"
  shows "m \<le> (1 - t) * a + t * b"
proof -
  have "(1 - t) * m \<le> (1 - t) * a" using assms by (intro mult_left_mono) auto
  moreover have "t * m \<le> t * b" using assms by (intro mult_left_mono) auto
  moreover have "(1 - t) * m + t * m = m" by (simp add: algebra_simps)
  ultimately show ?thesis by linarith
qed

lemma convex3:
  fixes m :: real
  assumes "0 \<le> t" "t \<le> 1" "m \<le> a" "m \<le> b" "m \<le> c"
  shows "m \<le> (1 - t)^2 * a + 2 * (1 - t) * t * b + t^2 * c"
proof -
  have "m \<le> (1 - t) * a + t * b" "m \<le> (1 - t) * b + t * c"
    using assms by (simp_all add: convex2)
  then have "m \<le> (1 - t) * ((1 - t) * a + t * b) + t * ((1 - t) * b + t * c)"
    using assms by (simp add: convex2)
  also have "\<dots> = (1 - t)^2 * a + 2 * (1 - t) * t * b + t^2 * c"
    by (simp add: algebra_simps power2_eq_square)
  finally show ?thesis .
qed

lemma convex4:
  fixes m :: real
  assumes "0 \<le> t" "t \<le> 1" "m \<le> a" "m \<le> b" "m \<le> c" "m \<le> d"
  shows "m \<le> (1 - t)^3 * a + 3 * (1 - t)^2 * t * b + 3 * (1 - t) * t^2 * c + t^3 * d"
proof -
  have "m \<le> (1 - t)^2 * a + 2 * (1 - t) * t * b + t^2 * c"
       "m \<le> (1 - t)^2 * b + 2 * (1 - t) * t * c + t^2 * d"
    by (rule convex3 [OF assms(1,2,3,4,5)], rule convex3 [OF assms(1,2,4,5,6)])
  then have "m \<le> (1 - t) * ((1 - t)^2 * a + 2 * (1 - t) * t * b + t^2 * c)
                 + t * ((1 - t)^2 * b + 2 * (1 - t) * t * c + t^2 * d)"
    using assms by (simp add: convex2)
  also have "\<dots> = (1 - t)^3 * a + 3 * (1 - t)^2 * t * b + 3 * (1 - t) * t^2 * c + t^3 * d"
    by (simp add: algebra_simps power2_eq_square power3_eq_cube)
  finally show ?thesis .
qed

lemma cmd_point_lower:
  assumes "0 \<le> t" "t \<le> 1" "m \<le> fst p" "\<forall>x \<in> set (cmd_xs c). m \<le> x"
  shows "m \<le> fst (cmd_point p c t)"
proof (cases c)
  case (M a b)
  then show ?thesis using assms(4) by simp
next
  case (L a b)
  then have "m \<le> a" using assms(4) by simp
  then have "m \<le> (1 - t) * fst p + t * a"
    using assms(1,2,3) by (intro convex2)
  then show ?thesis unfolding L by (simp only: cmd_point.simps fst_conv)
next
  case (Q c1 c2 a b)
  then have "m \<le> c1" "m \<le> a" using assms(4) by simp_all
  then have "m \<le> (1 - t)^2 * fst p + 2 * (1 - t) * t * c1 + t^2 * a"
    using assms(1,2,3) by (intro convex3)
  then show ?thesis unfolding Q by (simp only: cmd_point.simps fst_conv)
next
  case (C c1 c2 d1 d2 a b)
  then have "m \<le> c1" "m \<le> d1" "m \<le> a" using assms(4) by simp_all
  then have "m \<le> (1 - t)^3 * fst p + 3 * (1 - t)^2 * t * c1 + 3 * (1 - t) * t^2 * d1 + t^3 * a"
    using assms(1,2,3) by (intro convex4)
  then show ?thesis unfolding C by (simp only: cmd_point.simps fst_conv)
qed

lemma cmd_end_lower: "\<forall>x \<in> set (cmd_xs c). m \<le> x \<Longrightarrow> m \<le> fst (cmd_end c)"
  by (cases c) simp_all

lemma on_path_from_lower:
  assumes "on_path_from p cs q" "m \<le> fst p" "\<forall>c \<in> set cs. \<forall>x \<in> set (cmd_xs c). m \<le> x"
  shows "m \<le> fst q"
  using assms
proof (induction cs arbitrary: p)
  case Nil
  then show ?case by simp
next
  case (Cons c cs)
  from Cons.prems(1) consider
      (here) t where "0 \<le> t" "t \<le> 1" "cmd_point p c t = q"
    | (later) "on_path_from (cmd_end c) cs q"
    by auto
  then show ?case
  proof cases
    case here
    have "m \<le> fst (cmd_point p c t)"
      using here(1,2) Cons.prems(2,3) by (intro cmd_point_lower) auto
    then show ?thesis using here(3) by simp
  next
    case later
    have "m \<le> fst (cmd_end c)" using Cons.prems(3) by (intro cmd_end_lower) auto
    then show ?thesis using Cons.IH [OF later] Cons.prems(3) by auto
  qed
qed

lemma on_path_lower:
  assumes "on_path cs q" "\<forall>c \<in> set cs. \<forall>x \<in> set (cmd_xs c). m \<le> x"
  shows "m \<le> fst q"
proof (cases cs)
  case Nil
  then show ?thesis using assms by simp
next
  case (Cons c ds)
  show ?thesis
  proof (cases c)
    case (M a b)
    have ma: "m \<le> a" using assms(2) Cons M by simp
    from assms(1) Cons M consider "q = (a, b)" | "on_path_from (a, b) ds q" by auto
    then show ?thesis
    proof cases
      case 1
      then show ?thesis using ma by simp
    next
      case 2
      then show ?thesis using on_path_from_lower [OF 2, of m] ma assms(2) Cons by simp
    qed
  qed (use assms Cons in simp_all)
qed

lemma loopPath_xs:
  assumes "m \<le> tx - 50" "tx < sx"
  shows "\<forall>c \<in> set (loopPath sx sy tx ty ly). \<forall>x \<in> set (cmd_xs c). m \<le> x"
  using assms by (simp add: loopPath_def gap_def Let_def)

lemma loopPath_v1_xs:
  assumes "m \<le> tx - 50" "tx < sx"
  shows "\<forall>c \<in> set (loopPath_v1 sx sy tx ty ly). \<forall>x \<in> set (cmd_xs c). m \<le> x"
  using assms by (simp add: loopPath_v1_def gap_def Let_def)

text \<open>
  C3 (as amended). For a link whose source has its right edge at x = 100 and anchor height
  50, whose target has its left edge at x = 40 and anchor height 200, and which has no
  explicit \<open>returnY\<close>: the loop-back path has loop height 300 + 60 i at link index i,
  which is at least max(50, 200) + 100 = 300; every point of its traversal has
  x \<ge> -10; and the traversal does reach x = -10 (the left vertical run lies 50 to the
  left of the target's edge). The same holds for the earlier version of the component.
\<close>

theorem loop_example:
  assumes "nm (source link) = Some s" "nm (target link) = Some t"
    and "sourceAnchor s = (100, 50)" "targetAnchor t = (40, 200)"
    and "returnY link = None"
  shows "traverseY (generateLinkPath nm link i False) = Some (loopY link i 50 200) \<and>
         loopY link i 50 200 = 300 + real i * 60 \<and>
         max 50 200 + 100 \<le> loopY link i 50 200 \<and>
         (\<forall>q. on_path (generateLinkPath nm link i False) q \<longrightarrow> - 10 \<le> fst q) \<and>
         on_path (generateLinkPath nm link i False) (- 10, 280 + real i * 60) \<and>
         traverseY (generateLinkPath_v1 nm link i False) = Some (300 + real i * 60) \<and>
         (\<forall>q. on_path (generateLinkPath_v1 nm link i False) q \<longrightarrow> - 10 \<le> fst q) \<and>
         on_path (generateLinkPath_v1 nm link i False) (- 10, 280 + real i * 60)"
proof -
  have ly: "loopY link i 50 200 = 300 + real i * 60"
    using assms(5) by (simp add: loopY_def stagger_def)
  have anch: "node_x s + node_width s = 100" "node_y s + node_height s / 2 = 50"
     "node_x t = 40" "node_y t + node_height t / 2 = 200"
    using assms(3,4) by (simp_all add: sourceAnchor_def targetAnchor_def)
  have g: "generateLinkPath nm link i False = loopPath 100 50 40 200 (300 + real i * 60)"
    using assms(1,2) by (simp add: generateLinkPath_def anch ly Let_def)
  have g1: "generateLinkPath_v1 nm link i False = loopPath_v1 100 50 40 200 (300 + real i * 60)"
    using assms(1,2) by (simp add: generateLinkPath_v1_def anch ly Let_def)
  have nonneg: "(0::real) \<le> real i * 60" by simp
  have a: "traverseY (generateLinkPath nm link i False) = Some (300 + real i * 60)"
    by (simp add: g loopPath_def traverseY_def Let_def)
  have a1: "traverseY (generateLinkPath_v1 nm link i False) = Some (300 + real i * 60)"
    by (simp add: g1 loopPath_v1_def traverseY_def Let_def)
  have b: "\<forall>q. on_path (generateLinkPath nm link i False) q \<longrightarrow> - 10 \<le> fst q"
    unfolding g using on_path_lower [OF _ loopPath_xs [of "- 10" 40 100]] by simp
  have b1: "\<forall>q. on_path (generateLinkPath_v1 nm link i False) q \<longrightarrow> - 10 \<le> fst q"
    unfolding g1 using on_path_lower [OF _ loopPath_v1_xs [of "- 10" 40 100]] by simp
  have "Q (- 10) (300 + real i * 60) (- 10) (280 + real i * 60)
          \<in> set (tl (loopPath 100 50 40 200 (300 + real i * 60)))"
    using nonneg by (simp add: loopPath_def Let_def gap_def targetCurveDir_def)
  from on_path_end [OF this, of 100 50]
  have c: "on_path (generateLinkPath nm link i False) (- 10, 280 + real i * 60)"
    by (simp add: g loopPath_def Let_def)
  have "Q (- 10) (300 + real i * 60) (- 10) (280 + real i * 60)
          \<in> set (tl (loopPath_v1 100 50 40 200 (300 + real i * 60)))"
    using nonneg by (simp add: loopPath_v1_def Let_def gap_def curveDir_def)
  from on_path_end [OF this, of 100 50]
  have c1: "on_path (generateLinkPath_v1 nm link i False) (- 10, 280 + real i * 60)"
    by (simp add: g1 loopPath_v1_def Let_def)
  show ?thesis using a a1 b b1 c c1 nonneg by (simp add: ly)
qed

theorem loop_example_witness:
  "sourceAnchor node_A = (100, 50) \<and> targetAnchor node_B = (40, 200) \<and>
   returnY link_AB = None \<and>
   traverseY (generateLinkPath (nodeMap [node_A, node_B]) link_AB 1 False) = Some 360 \<and>
   on_path (generateLinkPath (nodeMap [node_A, node_B]) link_AB 1 False) (- 10, 340) \<and>
   on_path (generateLinkPath_v1 (nodeMap [node_A, node_B]) link_AB 1 False) (- 10, 340)"
  using loop_example [OF example_resolves(1,2) example_anchors(1,2) example_link(3), of 1]
  by (simp add: example_anchors example_link)

text \<open>
  In the example the traversal passes through (-10, 280): the path does cross x < 0.
\<close>

theorem loop_example_crosses_zero:
  "sourceAnchor node_A = (100, 50) \<and> targetAnchor node_B = (40, 200) \<and>
   returnY link_AB = None \<and>
   on_path (generateLinkPath (nodeMap [node_A, node_B]) link_AB 0 False) (- 10, 280) \<and>
   fst (- 10 :: real, 280 :: real) < 0"
proof -
  have "Q (- 10) 300 (- 10) 280 \<in> set (tl (generateLinkPath (nodeMap [node_A, node_B]) link_AB 0 False))"
    by (simp add: example_loop_path)
  from on_path_end [OF this, of 100 50]
  have "on_path (generateLinkPath (nodeMap [node_A, node_B]) link_AB 0 False) (- 10, 280)"
    by (simp add: example_loop_path)
  then show ?thesis by (simp add: example_anchors example_link)
qed

section \<open>Viewport fit\<close>

text \<open>
  C1 (as amended). For a scene whose bounding box has non-zero width W and height H,
  rendered into a viewport of width Vw and height Vh, the uniform scale is
  min((Vw - 20) / W, (Vh - 20) / H) * 0.95 (the code subtracts a padding of 20 from each
  viewport dimension before dividing), the translation is
  translateX = (Vw - W * scale) / 2 - bbox.x * scale and symmetrically for Y, and with it
  the centre of the scaled bounding box is the centre of the viewport.
\<close>

theorem viewport_fit:
  assumes "bbox_width b \<noteq> 0" "bbox_height b \<noteq> 0"
  shows "\<exists>tf. fitViewport width height (Some b) = Fit tf \<and>
           scale tf = min ((width - 20) / bbox_width b) ((height - 20) / bbox_height b) * 0.95 \<and>
           translateX tf = (width - bbox_width b * scale tf) / 2 - bbox_x b * scale tf \<and>
           translateY tf = (height - bbox_height b * scale tf) / 2 - bbox_y b * scale tf \<and>
           translateX tf + (bbox_x b + bbox_width b / 2) * scale tf = width / 2 \<and>
           translateY tf + (bbox_y b + bbox_height b / 2) * scale tf = height / 2"
proof -
  define sc where "sc = min ((width - 20) / bbox_width b) ((height - 20) / bbox_height b) * 0.95"
  define tf where "tf = \<lparr>translateX = (width - bbox_width b * sc) / 2 - bbox_x b * sc,
                          translateY = (height - bbox_height b * sc) / 2 - bbox_y b * sc,
                          scale = sc\<rparr>"
  have f: "fitViewport width height (Some b) = Fit tf"
    using assms by (simp add: fitViewport_def x_div_def padding_def Let_def tf_def sc_def mult.commute)
  have s1: "scale tf = min ((width - 20) / bbox_width b) ((height - 20) / bbox_height b) * 0.95"
    by (simp add: tf_def sc_def)
  have s2: "translateX tf = (width - bbox_width b * scale tf) / 2 - bbox_x b * scale tf"
    by (simp add: tf_def)
  have s3: "translateY tf = (height - bbox_height b * scale tf) / 2 - bbox_y b * scale tf"
    by (simp add: tf_def)
  have cx: "translateX tf + (bbox_x b + bbox_width b / 2) * scale tf = width / 2"
    unfolding s2 by (simp add: field_simps)
  have cy: "translateY tf + (bbox_y b + bbox_height b / 2) * scale tf = height / 2"
    unfolding s3 by (simp add: field_simps)
  from f s1 s2 s3 cx cy show ?thesis by blast
qed

text \<open>
  A box with one zero side still gets a finite transform when the viewport is larger than
  the padding; a box with both sides zero does not.
\<close>

lemma viewport_fit_flat_box:
  "fitViewport 850 700 (Some \<lparr>bbox_x = 0, bbox_y = 0, bbox_width = 0, bbox_height = 100\<rparr>) =
     Fit \<lparr>translateX = 425, translateY = 27, scale = 6.46\<rparr>"
  "fitViewport 850 700 (Some \<lparr>bbox_x = 0, bbox_y = 0, bbox_width = 0, bbox_height = 0\<rparr>) =
     NonFinite"
  by (simp_all add: fitViewport_def x_div_def padding_def Let_def)

theorem viewport_fit_witness:
  "bbox_width unit_box \<noteq> 0 \<and> bbox_height unit_box \<noteq> 0 \<and>
   (\<exists>tf. fitViewport 120 120 (Some unit_box) = Fit tf \<and> scale tf = 0.95 \<and>
      translateX tf = 12.5 \<and> translateY tf = 12.5)"
proof -
  have nz: "bbox_width unit_box \<noteq> 0" "bbox_height unit_box \<noteq> 0"
    by (simp_all add: unit_box_def)
  have v: "bbox_x unit_box = 0" "bbox_y unit_box = 0" "bbox_width unit_box = 100"
    "bbox_height unit_box = 100"
    by (simp_all add: unit_box_def)
  from viewport_fit [OF nz, of 120 120] obtain tf where
    "fitViewport 120 120 (Some unit_box) = Fit tf"
    "scale tf = min ((120 - 20) / bbox_width unit_box) ((120 - 20) / bbox_height unit_box) * 0.95"
    "translateX tf = (120 - bbox_width unit_box * scale tf) / 2 - bbox_x unit_box * scale tf"
    "translateY tf = (120 - bbox_height unit_box * scale tf) / 2 - bbox_y unit_box * scale tf"
    by blast
  then have "fitViewport 120 120 (Some unit_box) = Fit tf \<and> scale tf = 0.95 \<and>
      translateX tf = 12.5 \<and> translateY tf = 12.5"
    by (simp add: v)
  with nz show ?thesis by blast
qed

text \<open>
  A 100 by 100 box in a 120 by 120 viewport is scaled by 0.95, not by
  min(120/100, 120/100) * 0.95 = 1.14; and reading the viewport as the padded one
  (100 by 100) would give the translation 2.5, not 12.5.
\<close>

theorem viewport_fit_padding_counterexample:
  "fitViewport 120 120 (Some unit_box) =
     Fit \<lparr>translateX = 12.5, translateY = 12.5, scale = 0.95\<rparr> \<and>
   \<bar>0.95 - min (120 / bbox_width unit_box) (120 / bbox_height unit_box) * 0.95\<bar> > 0.1 \<and>
   (100 - bbox_width unit_box * 0.95) / 2 - bbox_x unit_box * 0.95 \<noteq> 12.5"
  by (simp add: fitViewport_def x_div_def padding_def Let_def unit_box_def)

section \<open>Particle scheduling\<close>

lemma particleDelays_3: "particleDelays 3 d = [0, (1 / 3) * d, (2 / 3) * d]"
proof -
  have "[0 ..< nat \<lceil>3 :: real\<rceil>] = [0, 1, 2]" by (simp add: upt_rec)
  then show ?thesis by (simp add: particleDelays_def)
qed

text \<open>
  C6 (as amended). For a link with particle count 3 and rate 3 (configured, or by the
  defaults for an absent count and an absent or zero rate), the loop duration is
  (11 - 3) * 2 = 16 seconds and the three particles get the delays (i / 3) * 16 for
  i = 0, 1, 2, that is 0, 16/3 and 32/3 seconds (0 s, 5.33 s and 10.67 s to two decimals);
  and over non-zero configured rates the loop duration is strictly decreasing in the rate
  (a configured rate of 0, like an absent one, is replaced by the default 3).
\<close>

theorem particle_schedule:
  assumes "particleCount link = 3" "or_default (animationRate link) 3 = 3"
  shows "linkDuration link = (11 - 3) * 2 \<and> linkDuration link = 16 \<and>
         map p_delay (particlesFor (storeParticleConfig link)) = [0, 16 / 3, 32 / 3] \<and>
         map p_duration (particlesFor (storeParticleConfig link)) = [16, 16, 16] \<and>
         \<bar>16 / 3 - 5.33\<bar> < (0.005 :: real) \<and> \<bar>32 / 3 - 10.67\<bar> < (0.005 :: real) \<and>
         (\<forall>r1 r2. r1 \<noteq> 0 \<and> r2 \<noteq> 0 \<and> r1 < r2 \<longrightarrow>
            linkDuration (link\<lparr>animationRate := Some r2\<rparr>) < linkDuration (link\<lparr>animationRate := Some r1\<rparr>))"
proof -
  have d: "linkDuration link = 16"
    using assms(2) by (simp add: linkDuration_def Let_def)
  have s: "storeParticleConfig link =
      link\<lparr>particleConfig := Some \<lparr>pc_count = 3, pc_size = or_default (animationSize link) 4, pc_duration = 16\<rparr>\<rparr>"
    using assms(1) by (simp add: storeParticleConfig_def d)
  have p: "map p_delay (particlesFor (storeParticleConfig link)) = [0, 16 / 3, 32 / 3]"
    by (simp add: s particlesFor_def particleDelays_3)
  have q: "map p_duration (particlesFor (storeParticleConfig link)) = [16, 16, 16]"
    by (simp add: s particlesFor_def particleDelays_3)
  have m: "\<forall>r1 r2. r1 \<noteq> 0 \<and> r2 \<noteq> 0 \<and> r1 < r2 \<longrightarrow>
            linkDuration (link\<lparr>animationRate := Some r2\<rparr>) < linkDuration (link\<lparr>animationRate := Some r1\<rparr>)"
    by (simp add: linkDuration_def or_default_def)
  show ?thesis using d p q m by simp
qed

theorem particle_schedule_witness:
  "particleCount (link_AB\<lparr>animationFrequency := Some 3, animationRate := Some 3\<rparr>) = 3 \<and>
   or_default (animationRate (link_AB\<lparr>animationFrequency := Some 3, animationRate := Some 3\<rparr>)) 3 = 3 \<and>
   linkDuration (link_AB\<lparr>animationFrequency := Some 3, animationRate := Some 3\<rparr>) = 16 \<and>
   map p_delay (particlesFor (storeParticleConfig
      (link_AB\<lparr>animationFrequency := Some 3, animationRate := Some 3\<rparr>))) = [0, 16 / 3, 32 / 3] \<and>
   linkDuration (link_AB\<lparr>animationFrequency := Some 3, animationRate := Some 2\<rparr>) <
   linkDuration (link_AB\<lparr>animationFrequency := Some 3, animationRate := Some 1\<rparr>)"
proof -
  let ?l = "link_AB\<lparr>animationFrequency := Some 3, animationRate := Some 3\<rparr>"
  have h: "particleCount ?l = 3" "or_default (animationRate ?l) 3 = 3"
    by (simp_all add: particleCount_def or_default_def)
  note t = particle_schedule [OF h]
  from t have 1: "linkDuration ?l = 16" by blast
  from t have 2: "map p_delay (particlesFor (storeParticleConfig ?l)) = [0, 16 / 3, 32 / 3]"
    by blast
  from t have "(1::real) \<noteq> 0 \<and> (2::real) \<noteq> 0 \<and> (1::real) < 2 \<longrightarrow>
      linkDuration (?l\<lparr>animationRate := Some 2\<rparr>) < linkDuration (?l\<lparr>animationRate := Some 1\<rparr>)"
    by blast
  then have 3: "linkDuration (link_AB\<lparr>animationFrequency := Some 3, animationRate := Some 2\<rparr>) <
      linkDuration (link_AB\<lparr>animationFrequency := Some 3, animationRate := Some 1\<rparr>)"
    by simp
  from h 1 2 3 show ?thesis by blast
qed

text \<open>
  Raising the configured rate from 0 to 1 raises the duration from 16 to 20 seconds.
\<close>

theorem rate_zero_counterexample:
  "(0 :: real) < 1 \<and>
   linkDuration (link_AB\<lparr>animationRate := Some 0\<rparr>) = 16 \<and>
   linkDuration (link_AB\<lparr>animationRate := Some 1\<rparr>) = 20 \<and>
   \<not> linkDuration (link_AB\<lparr>animationRate := Some 1\<rparr>) < linkDuration (link_AB\<lparr>animationRate := Some 0\<rparr>)"
  by (simp add: linkDuration_def or_default_def)

section \<open>The render pass never throws\<close>



lemma total_duration: "getTotalAnimationDuration = Inr 6000"
  by code_simp









section \<open>The gate of the staged reveal\<close>

lemma drawLink_static:
  "drawLink nm iid False hl l i =
     Inr (if nm (source l) = None \<or> nm (target l) = None then (None, l)
          else (Some \<lparr>lg_path = generateLinkPath nm l i False,
                      lg_opacity = linkBaseOpacity hl l,
                      lg_transition = None,
                      lg_label = linkLabel nm iid l\<rparr>, storeParticleConfig l))"
  by (simp add: drawLink_def Let_def)

lemma drawLinksFrom_static:
  "drawLinksFrom nm iid False hl ls k =
     Inr (map (\<lambda>(i, l). if nm (source l) = None \<or> nm (target l) = None then (None, l)
          else (Some \<lparr>lg_path = generateLinkPath nm l i False,
                      lg_opacity = linkBaseOpacity hl l,
                      lg_transition = None,
                      lg_label = linkLabel nm iid l\<rparr>, storeParticleConfig l)) (enumerate k ls))"
  by (induction ls arbitrary: k) (simp_all add: drawLink_static)

lemma drawNode_static:
  "drawNode False hl ls n =
     Inr \<lparr>ng_opacity = nodeBaseOpacity hl ls n, ng_scale = 1, ng_transition = None, ng_pulse = False\<rparr>"
  by (simp add: drawNode_def Let_def)

lemma drawNodes_static:
  "drawNodes False hl ls ns =
     Inr (map (\<lambda>n. \<lparr>ng_opacity = nodeBaseOpacity hl ls n, ng_scale = 1, ng_transition = None,
                     ng_pulse = False\<rparr>) ns)"
  by (induction ns) (simp_all add: drawNode_static)

lemma shouldAnimate_iff:
  "shouldAnimate flag d \<longleftrightarrow> flag \<and> (\<exists>m. metadata d = Some m \<and> system m = ''proposed'')"
  by (auto simp add: shouldAnimate_def systemContext_def split: option.splits)

lemma lookupPhase_table:
  "lookupPhase (Suc 0) =
     Some \<lparr>nodes = [''anaerobic-digester''], links = [], delay = 0, duration = 800\<rparr>"
  "lookupPhase 2 =
     Some \<lparr>nodes = [], links = [''link-house-to-ad'', ''link-plant-to-ad''],
        delay = 600, duration = 600\<rparr>"
  "lookupPhase 3 =
     Some \<lparr>nodes = [''pyrolysis-unit''], links = [], delay = 400, duration = 800\<rparr>"
  "lookupPhase 4 =
     Some \<lparr>nodes = [], links = [''link-ad-to-pyrolysis'', ''link-house-to-pyrolysis''],
        delay = 400, duration = 600\<rparr>"
  "lookupPhase 5 =
     Some \<lparr>nodes = [''rng-output'', ''co2-output'', ''syngas-output'', ''biochar-blend'',
        ''node-1765493578436-0lnym20wl''], links = [], delay = 300, duration = 600\<rparr>"
  "lookupPhase 6 =
     Some \<lparr>nodes = [], links = [''link-ad-to-rng'', ''link-ad-to-co2'',
        ''link-pyrolysis-to-syngas'', ''link-ad-to-blend'', ''link-blend-to-farm''],
        delay = 300, duration = 600\<rparr>"
  by (simp_all add: lookupPhase_def phaseKey_def string_of_nat.simps digit_char_def
      ANIMATION_PHASES_def)

lemma findPhase_named:
  "findPhase sel ANIMATION_PHASES x = map_option Num (namedPhase sel x)"
  by (simp add: namedPhase_def lookupPhase_table ANIMATION_PHASES_def parseInt_def digit_val_def)

lemma namedPhase_range:
  "namedPhase sel x \<in> {None, Some 1, Some 2, Some 3, Some 4, Some 5, Some 6}"
  by (simp add: namedPhase_def)

lemma schedule_values:
  "phaseStart (Suc 0) = 0" "phaseStart 2 = 1400" "phaseStart 3 = 2400" "phaseStart 4 = 3600"
  "phaseStart 5 = 4500" "phaseStart 6 = 5400"
  "phaseDuration (Suc 0) = 800" "phaseDuration 2 = 600" "phaseDuration 3 = 800"
  "phaseDuration 4 = 600" "phaseDuration 5 = 600" "phaseDuration 6 = 600"
  by (simp_all add: phaseStart_def phaseDuration_def phaseTimes_eq)

lemma phaseTransition_named:
  assumes "k \<in> {1, 2, 3, 4, 5, 6}"
  shows "phaseTransition (Some (Num k)) b =
           Inr \<lparr>tr_delay = phaseStart k, tr_duration = phaseDuration k, tr_opacity = b\<rparr>"
  using assms
  by (auto simp add: phaseTransition_def phase_starts lookupPhase_table schedule_values)

lemma truthy_phase_named: "k \<in> {1, 2, 3, 4, 5, 6} \<Longrightarrow> truthy_phase (Some (Num k))"
  by (auto simp add: truthy_phase_def)

lemma drawNode_staged:
  "drawNode True hl ls n =
     Inr (case namedPhase nodes (node_id n) of
            None \<Rightarrow> \<lparr>ng_opacity = nodeBaseOpacity hl ls n, ng_scale = 1,
                      ng_transition = None, ng_pulse = False\<rparr>
          | Some k \<Rightarrow> \<lparr>ng_opacity = 0, ng_scale = 0.3,
                       ng_transition = Some \<lparr>tr_delay = phaseStart k, tr_duration = phaseDuration k,
                                              tr_opacity = nodeBaseOpacity hl ls n\<rparr>,
                       ng_pulse = (node_id n = ''anaerobic-digester'' \<or>
                                   node_id n = ''pyrolysis-unit'')\<rparr>)"
proof (cases "namedPhase nodes (node_id n)")
  case None
  then have "getNodePhase (node_id n) = None"
    by (simp add: getNodePhase_def findPhase_named)
  then show ?thesis by (simp add: drawNode_def Let_def None truthy_phase_def)
next
  case (Some k)
  with namedPhase_range [of nodes "node_id n"] have k: "k \<in> {1, 2, 3, 4, 5, 6}"
    by auto
  have g: "getNodePhase (node_id n) = Some (Num k)"
    by (simp add: getNodePhase_def findPhase_named Some)
  show ?thesis
    by (simp add: drawNode_def Let_def g Some truthy_phase_named [OF k]
        phaseTransition_named [OF k] total_duration)
qed

lemma drawNodes_staged:
  "drawNodes True hl ls ns =
     Inr (map (\<lambda>n. case namedPhase nodes (node_id n) of
            None \<Rightarrow> \<lparr>ng_opacity = nodeBaseOpacity hl ls n, ng_scale = 1,
                      ng_transition = None, ng_pulse = False\<rparr>
          | Some k \<Rightarrow> \<lparr>ng_opacity = 0, ng_scale = 0.3,
                       ng_transition = Some \<lparr>tr_delay = phaseStart k, tr_duration = phaseDuration k,
                                              tr_opacity = nodeBaseOpacity hl ls n\<rparr>,
                       ng_pulse = (node_id n = ''anaerobic-digester'' \<or>
                                   node_id n = ''pyrolysis-unit'')\<rparr>) ns)"
  by (induction ns) (simp_all add: drawNode_staged)

lemma drawLink_staged:
  "drawLink nm iid True hl l i =
     Inr (if nm (source l) = None \<or> nm (target l) = None then (None, l)
          else (Some (case namedPhase links (link_id l) of
                        None \<Rightarrow> \<lparr>lg_path = generateLinkPath nm l i False,
                                  lg_opacity = linkBaseOpacity hl l,
                                  lg_transition = None,
                                  lg_label = linkLabel nm iid l\<rparr>
                      | Some k \<Rightarrow> \<lparr>lg_path = generateLinkPath nm l i False,
                                   lg_opacity = 0,
                                   lg_transition = Some \<lparr>tr_delay = phaseStart k,
                                      tr_duration = phaseDuration k,
                                      tr_opacity = linkBaseOpacity hl l\<rparr>,
                                   lg_label = linkLabel nm iid l\<rparr>),
                storeParticleConfig l))"
proof (cases "namedPhase links (link_id l)")
  case None
  then have "getLinkPhase (link_id l) = None"
    by (simp add: getLinkPhase_def findPhase_named)
  then show ?thesis by (simp add: drawLink_def Let_def None truthy_phase_def)
next
  case (Some k)
  with namedPhase_range [of links "link_id l"] have k: "k \<in> {1, 2, 3, 4, 5, 6}"
    by auto
  have g: "getLinkPhase (link_id l) = Some (Num k)"
    by (simp add: getLinkPhase_def findPhase_named Some)
  show ?thesis
    by (simp add: drawLink_def Let_def g Some truthy_phase_named [OF k]
        phaseTransition_named [OF k])
qed

lemma drawLinksFrom_staged:
  "drawLinksFrom nm iid True hl ls k =
     Inr (map (\<lambda>(i, l). if nm (source l) = None \<or> nm (target l) = None then (None, l)
          else (Some (case namedPhase links (link_id l) of
                        None \<Rightarrow> \<lparr>lg_path = generateLinkPath nm l i False,
                                  lg_opacity = linkBaseOpacity hl l,
                                  lg_transition = None,
                                  lg_label = linkLabel nm iid l\<rparr>
                      | Some k \<Rightarrow> \<lparr>lg_path = generateLinkPath nm l i False,
                                   lg_opacity = 0,
                                   lg_transition = Some \<lparr>tr_delay = phaseStart k,
                                      tr_duration = phaseDuration k,
                                      tr_opacity = linkBaseOpacity hl l\<rparr>,
                                   lg_label = linkLabel nm iid l\<rparr>),
                storeParticleConfig l)) (enumerate k ls))"
  by (induction ls arbitrary: k) (simp_all add: drawLink_staged)

text \<open>
  C9. The staged reveal runs exactly when the \<open>animateTransition\<close> flag is true and the
  metadata is present with \<open>system\<close> equal to \<open>proposed\<close>. In that case the render
  succeeds and the scene it returns follows the reveal schedule: every node that a phase
  names starts hidden (opacity 0, scale 0.3) with a transition to its base opacity that
  begins at the start time of its phase and lasts the phase's duration, every resolving
  link that a phase names starts at opacity 0 with such a transition, and every other
  node and link is drawn at once at its base opacity. In every other case (flag false,
  another \<open>system\<close>, or no metadata) the render succeeds and every node is drawn at its
  base opacity with scale 1, no transition and no pulse, and every resolving link at its
  base opacity with no transition.
\<close>

theorem staged_reveal_gate:
  "(shouldAnimate flag d \<longleftrightarrow> flag \<and> (\<exists>m. metadata d = Some m \<and> system m = ''proposed'')) \<and>
   (flag \<and> (\<exists>m. metadata d = Some m \<and> system m = ''proposed'') \<longrightarrow>
      (\<exists>scene. render d w h iid flag hl bbox = Inr scene \<and>
         sc_nodes scene =
           map (\<lambda>n. case namedPhase nodes (node_id n) of
                  None \<Rightarrow> \<lparr>ng_opacity = nodeBaseOpacity hl (data_links d) n, ng_scale = 1,
                            ng_transition = None, ng_pulse = False\<rparr>
                | Some k \<Rightarrow> \<lparr>ng_opacity = 0, ng_scale = 0.3,
                             ng_transition = Some \<lparr>tr_delay = phaseStart k,
                                tr_duration = phaseDuration k,
                                tr_opacity = nodeBaseOpacity hl (data_links d) n\<rparr>,
                             ng_pulse = (node_id n = ''anaerobic-digester'' \<or>
                                         node_id n = ''pyrolysis-unit'')\<rparr>) (data_nodes d) \<and>
         sc_links scene =
           map (\<lambda>(i, l). if nodeMap (data_nodes d) (source l) = None \<or>
                            nodeMap (data_nodes d) (target l) = None then None
                  else Some (case namedPhase links (link_id l) of
                        None \<Rightarrow> \<lparr>lg_path = generateLinkPath (nodeMap (data_nodes d)) l i False,
                                  lg_opacity = linkBaseOpacity hl l,
                                  lg_transition = None,
                                  lg_label = linkLabel (nodeMap (data_nodes d)) iid l\<rparr>
                      | Some k \<Rightarrow> \<lparr>lg_path = generateLinkPath (nodeMap (data_nodes d)) l i False,
                                   lg_opacity = 0,
                                   lg_transition = Some \<lparr>tr_delay = phaseStart k,
                                      tr_duration = phaseDuration k,
                                      tr_opacity = linkBaseOpacity hl l\<rparr>,
                                   lg_label = linkLabel (nodeMap (data_nodes d)) iid l\<rparr>))
               (enumerate 0 (data_links d)))) \<and>
   (\<not> (flag \<and> (\<exists>m. metadata d = Some m \<and> system m = ''proposed'')) \<longrightarrow>
      (\<exists>scene. render d w h iid flag hl bbox = Inr scene \<and>
         sc_nodes scene =
           map (\<lambda>n. \<lparr>ng_opacity = nodeBaseOpacity hl (data_links d) n, ng_scale = 1,
                      ng_transition = None, ng_pulse = False\<rparr>) (data_nodes d) \<and>
         sc_links scene =
           map (\<lambda>(i, l). if nodeMap (data_nodes d) (source l) = None \<or>
                            nodeMap (data_nodes d) (target l) = None then None
                         else Some \<lparr>lg_path = generateLinkPath (nodeMap (data_nodes d)) l i False,
                                    lg_opacity = linkBaseOpacity hl l,
                                    lg_transition = None,
                                    lg_label = linkLabel (nodeMap (data_nodes d)) iid l\<rparr>)
               (enumerate 0 (data_links d))))"
proof (intro conjI impI)
  show "shouldAnimate flag d \<longleftrightarrow> flag \<and> (\<exists>m. metadata d = Some m \<and> system m = ''proposed'')"
    by (rule shouldAnimate_iff)
next
  assume "flag \<and> (\<exists>m. metadata d = Some m \<and> system m = ''proposed'')"
  then have sa: "shouldAnimate flag d = True"
    by (simp add: shouldAnimate_iff)
  show "\<exists>scene. render d w h iid flag hl bbox = Inr scene \<and>
         sc_nodes scene =
           map (\<lambda>n. case namedPhase nodes (node_id n) of
                  None \<Rightarrow> \<lparr>ng_opacity = nodeBaseOpacity hl (data_links d) n, ng_scale = 1,
                            ng_transition = None, ng_pulse = False\<rparr>
                | Some k \<Rightarrow> \<lparr>ng_opacity = 0, ng_scale = 0.3,
                             ng_transition = Some \<lparr>tr_delay = phaseStart k,
                                tr_duration = phaseDuration k,
                                tr_opacity = nodeBaseOpacity hl (data_links d) n\<rparr>,
                             ng_pulse = (node_id n = ''anaerobic-digester'' \<or>
                                         node_id n = ''pyrolysis-unit'')\<rparr>) (data_nodes d) \<and>
         sc_links scene =
           map (\<lambda>(i, l). if nodeMap (data_nodes d) (source l) = None \<or>
                            nodeMap (data_nodes d) (target l) = None then None
                  else Some (case namedPhase links (link_id l) of
                        None \<Rightarrow> \<lparr>lg_path = generateLinkPath (nodeMap (data_nodes d)) l i False,
                                  lg_opacity = linkBaseOpacity hl l,
                                  lg_transition = None,
                                  lg_label = linkLabel (nodeMap (data_nodes d)) iid l\<rparr>
                      | Some k \<Rightarrow> \<lparr>lg_path = generateLinkPath (nodeMap (data_nodes d)) l i False,
                                   lg_opacity = 0,
                                   lg_transition = Some \<lparr>tr_delay = phaseStart k,
                                      tr_duration = phaseDuration k,
                                      tr_opacity = linkBaseOpacity hl l\<rparr>,
                                   lg_label = linkLabel (nodeMap (data_nodes d)) iid l\<rparr>))
               (enumerate 0 (data_links d))"
    by (simp add: render_def Let_def sa drawLinksFrom_staged drawNodes_staged split_def
        cong: if_cong)
next
  assume "\<not> (flag \<and> (\<exists>m. metadata d = Some m \<and> system m = ''proposed''))"
  then have na: "shouldAnimate flag d = False"
    by (simp add: shouldAnimate_iff)
  show "\<exists>scene. render d w h iid flag hl bbox = Inr scene \<and>
         sc_nodes scene =
           map (\<lambda>n. \<lparr>ng_opacity = nodeBaseOpacity hl (data_links d) n, ng_scale = 1,
                      ng_transition = None, ng_pulse = False\<rparr>) (data_nodes d) \<and>
         sc_links scene =
           map (\<lambda>(i, l). if nodeMap (data_nodes d) (source l) = None \<or>
                            nodeMap (data_nodes d) (target l) = None then None
                         else Some \<lparr>lg_path = generateLinkPath (nodeMap (data_nodes d)) l i False,
                                    lg_opacity = linkBaseOpacity hl l,
                                    lg_transition = None,
                                    lg_label = linkLabel (nodeMap (data_nodes d)) iid l\<rparr>)
               (enumerate 0 (data_links d))"
    by (simp add: render_def Let_def na drawLinksFrom_static drawNodes_static split_def
        cong: if_cong)
qed

lemma reveal_data_simps:
  "metadata (reveal_data sys) = Some \<lparr>system = sys\<rparr>"
  by (simp add: reveal_data_def)

lemma reveal_names:
  "namedPhase nodes ''pyrolysis-unit'' = Some 3" "namedPhase nodes ''B'' = None"
  "namedPhase links ''link-ad-to-pyrolysis'' = Some 4"
  by (simp_all add: namedPhase_def lookupPhase_table)

theorem staged_reveal_gate_witness:
  "(\<exists>scene. render (reveal_data ''proposed'') 850 700 ''default'' True None (Some unit_box) = Inr scene \<and>
      map ng_opacity (sc_nodes scene) = [0, 1] \<and>
      map ng_scale (sc_nodes scene) = [0.3, 1] \<and>
      map ng_transition (sc_nodes scene) =
        [Some \<lparr>tr_delay = 2400, tr_duration = 800, tr_opacity = 1\<rparr>, None] \<and>
      map (map_option lg_opacity) (sc_links scene) = [Some 0] \<and>
      map (map_option lg_transition) (sc_links scene) =
        [Some (Some \<lparr>tr_delay = 3600, tr_duration = 600, tr_opacity = 0.6\<rparr>)]) \<and>
   (\<exists>scene. render (reveal_data ''current'') 850 700 ''default'' True None (Some unit_box) = Inr scene \<and>
      map ng_opacity (sc_nodes scene) = [1, 1] \<and>
      map ng_scale (sc_nodes scene) = [1, 1] \<and>
      map ng_transition (sc_nodes scene) = [None, None] \<and>
      map (map_option lg_opacity) (sc_links scene) = [Some 0.6] \<and>
      map (map_option lg_transition) (sc_links scene) = [Some None])"
proof -
  let ?on = "reveal_data ''proposed''" and ?off = "reveal_data ''current''"
  have h_on: "True \<and> (\<exists>m. metadata ?on = Some m \<and> system m = ''proposed'')"
    by (simp add: reveal_data_simps)
  have h_off: "\<not> (True \<and> (\<exists>m. metadata ?off = Some m \<and> system m = ''proposed''))"
    by (simp add: reveal_data_simps)
  have d: "\<And>sys. data_nodes (reveal_data sys) = [node_A\<lparr>node_id := ''pyrolysis-unit''\<rparr>, node_B]"
    "\<And>sys. data_links (reveal_data sys) = [plain_link ''link-ad-to-pyrolysis'' ''pyrolysis-unit'' ''B'']"
    by (simp_all add: reveal_data_def)
  have v: "\<And>sys. nodeBaseOpacity None (data_links (reveal_data sys)) (node_A\<lparr>node_id := ''pyrolysis-unit''\<rparr>) = 1"
    "\<And>sys. nodeBaseOpacity None (data_links (reveal_data sys)) node_B = 1"
    "linkBaseOpacity None (plain_link ''link-ad-to-pyrolysis'' ''pyrolysis-unit'' ''B'') = 0.6"
    "node_id node_B = ''B''" "link_id (plain_link ''link-ad-to-pyrolysis'' ''pyrolysis-unit'' ''B'') = ''link-ad-to-pyrolysis''"
    "\<And>sys. nodeMap (data_nodes (reveal_data sys)) (source (plain_link ''link-ad-to-pyrolysis'' ''pyrolysis-unit'' ''B'')) \<noteq> None"
    "\<And>sys. nodeMap (data_nodes (reveal_data sys)) (target (plain_link ''link-ad-to-pyrolysis'' ''pyrolysis-unit'' ''B'')) \<noteq> None"
    by (simp_all add: reveal_data_def node_A_def node_B_def plain_link_def nodeMap_def
      nodeBaseOpacity_def isConnected_def linkBaseOpacity_def truthy_str_def)
  from staged_reveal_gate [of True ?on 850 700 "''default''" None "Some unit_box",
      THEN conjunct2, THEN conjunct1, rule_format, OF h_on]
  obtain s1 where s1: "render ?on 850 700 ''default'' True None (Some unit_box) = Inr s1"
    and n1: "sc_nodes s1 =
           map (\<lambda>n. case namedPhase nodes (node_id n) of
                  None \<Rightarrow> \<lparr>ng_opacity = nodeBaseOpacity None (data_links ?on) n, ng_scale = 1,
                            ng_transition = None, ng_pulse = False\<rparr>
                | Some k \<Rightarrow> \<lparr>ng_opacity = 0, ng_scale = 0.3,
                             ng_transition = Some \<lparr>tr_delay = phaseStart k,
                                tr_duration = phaseDuration k,
                                tr_opacity = nodeBaseOpacity None (data_links ?on) n\<rparr>,
                             ng_pulse = (node_id n = ''anaerobic-digester'' \<or>
                                         node_id n = ''pyrolysis-unit'')\<rparr>) (data_nodes ?on)"
    and l1: "sc_links s1 =
           map (\<lambda>(i, l). if nodeMap (data_nodes ?on) (source l) = None \<or>
                            nodeMap (data_nodes ?on) (target l) = None then None
                  else Some (case namedPhase links (link_id l) of
                        None \<Rightarrow> \<lparr>lg_path = generateLinkPath (nodeMap (data_nodes ?on)) l i False,
                                  lg_opacity = linkBaseOpacity None l,
                                  lg_transition = None,
                                  lg_label = linkLabel (nodeMap (data_nodes ?on)) ''default'' l\<rparr>
                      | Some k \<Rightarrow> \<lparr>lg_path = generateLinkPath (nodeMap (data_nodes ?on)) l i False,
                                   lg_opacity = 0,
                                   lg_transition = Some \<lparr>tr_delay = phaseStart k,
                                      tr_duration = phaseDuration k,
                                      tr_opacity = linkBaseOpacity None l\<rparr>,
                                   lg_label = linkLabel (nodeMap (data_nodes ?on)) ''default'' l\<rparr>))
               (enumerate 0 (data_links ?on))"
    by (elim exE conjE)
  from staged_reveal_gate [of True ?off 850 700 "''default''" None "Some unit_box",
      THEN conjunct2, THEN conjunct2, rule_format, OF h_off]
  obtain s0 where s0: "render ?off 850 700 ''default'' True None (Some unit_box) = Inr s0"
    and n0: "sc_nodes s0 =
           map (\<lambda>n. \<lparr>ng_opacity = nodeBaseOpacity None (data_links ?off) n, ng_scale = 1,
                      ng_transition = None, ng_pulse = False\<rparr>) (data_nodes ?off)"
    and l0: "sc_links s0 =
           map (\<lambda>(i, l). if nodeMap (data_nodes ?off) (source l) = None \<or>
                            nodeMap (data_nodes ?off) (target l) = None then None
                         else Some \<lparr>lg_path = generateLinkPath (nodeMap (data_nodes ?off)) l i False,
                                    lg_opacity = linkBaseOpacity None l,
                                    lg_transition = None,
                                    lg_label = linkLabel (nodeMap (data_nodes ?off)) ''default'' l\<rparr>)
               (enumerate 0 (data_links ?off))"
    by (elim exE conjE)
  have on_nodes: "map ng_opacity (sc_nodes s1) = [0, 1]" "map ng_scale (sc_nodes s1) = [0.3, 1]"
    "map ng_transition (sc_nodes s1) =
        [Some \<lparr>tr_delay = 2400, tr_duration = 800, tr_opacity = 1\<rparr>, None]"
    unfolding n1 d(1) by (simp_all add: v reveal_names schedule_values)
  have on_links: "map (map_option lg_opacity) (sc_links s1) = [Some 0]"
    "map (map_option lg_transition) (sc_links s1) =
        [Some (Some \<lparr>tr_delay = 3600, tr_duration = 600, tr_opacity = 0.6\<rparr>)]"
    unfolding l1 d(2) by (simp_all add: v reveal_names schedule_values)
  have off_nodes: "map ng_opacity (sc_nodes s0) = [1, 1]" "map ng_scale (sc_nodes s0) = [1, 1]"
    "map ng_transition (sc_nodes s0) = [None, None]"
    unfolding n0 d(1) by (simp_all add: v)
  have off_links: "map (map_option lg_opacity) (sc_links s0) = [Some 0.6]"
    "map (map_option lg_transition) (sc_links s0) = [Some None]"
    unfolding l0 d(2) by (simp_all add: v)
  have 1: "\<exists>scene. render ?on 850 700 ''default'' True None (Some unit_box) = Inr scene \<and>
      map ng_opacity (sc_nodes scene) = [0, 1] \<and>
      map ng_scale (sc_nodes scene) = [0.3, 1] \<and>
      map ng_transition (sc_nodes scene) =
        [Some \<lparr>tr_delay = 2400, tr_duration = 800, tr_opacity = 1\<rparr>, None] \<and>
      map (map_option lg_opacity) (sc_links scene) = [Some 0] \<and>
      map (map_option lg_transition) (sc_links scene) =
        [Some (Some \<lparr>tr_delay = 3600, tr_duration = 600, tr_opacity = 0.6\<rparr>)]"
    by (rule exI [of _ s1]) (intro conjI s1 on_nodes on_links)
  have 0: "\<exists>scene. render ?off 850 700 ''default'' True None (Some unit_box) = Inr scene \<and>
      map ng_opacity (sc_nodes scene) = [1, 1] \<and>
      map ng_scale (sc_nodes scene) = [1, 1] \<and>
      map ng_transition (sc_nodes scene) = [None, None] \<and>
      map (map_option lg_opacity) (sc_links scene) = [Some 0.6] \<and>
      map (map_option lg_transition) (sc_links scene) = [Some None]"
    by (rule exI [of _ s0]) (intro conjI s0 off_nodes off_links)
  show ?thesis
    by (intro conjI 1 0)
qed

section \<open>Links with an unknown endpoint\<close>




lemma drawLinksFrom_append:
  "drawLinksFrom nm iid anim hl xs k = Inr A \<Longrightarrow>
   drawLinksFrom nm iid anim hl ys (k + length xs) = Inr B \<Longrightarrow>
   drawLinksFrom nm iid anim hl (xs @ ys) k = Inr (A @ B)"
proof (induction xs arbitrary: k A)
  case Nil
  then show ?case by simp
next
  case (Cons x xs)
  from Cons.prems(1) obtain r rs where
    r: "drawLink nm iid anim hl x k = Inr r" and
    rs: "drawLinksFrom nm iid anim hl xs (Suc k) = Inr rs" and A: "A = r # rs"
    by (auto split: sum.splits)
  from Cons.prems(2) have "drawLinksFrom nm iid anim hl ys (Suc k + length xs) = Inr B"
    by simp
  from Cons.IH [OF rs this] show ?case by (simp add: r A)
qed























section \<open>The request gate\<close>

lemma atob_undefined: "atob ''undefined'' = Inl InvalidCharacterError"
  by code_simp

lemma userPwd_calvin: "userPwd ''calvin:calvin123'' = (Some ''calvin'', Some ''calvin123'')"
  by code_simp

text \<open>
  C10 (as amended). A request with no Authorization header, or an empty one, is rewritten
  to the path /api/auth (the rest of the URL is kept). For a non-empty header, let the
  credential token be the element at index 1 of the header split at single spaces: when
  there is no such element, or it is not base64-decodable, the middleware throws; when
  it decodes to the string \<open>calvin:calvin123\<close> the request passes through; when it decodes
  to a string whose first two colon-separated fields are not \<open>calvin\<close> and \<open>calvin123\<close>,
  the request is rewritten to /api/auth.
\<close>

theorem middleware_gate:
  "(authorization request = None \<or> authorization request = Some [] \<longrightarrow>
      middleware request = Inr (rewriteToAuth request)) \<and>
   (\<forall>basicAuth. authorization request = Some basicAuth \<and> basicAuth \<noteq> [] \<longrightarrow>
      (authValue basicAuth = None \<longrightarrow> middleware request = Inl InvalidCharacterError) \<and>
      (\<forall>e. atob (js_string (authValue basicAuth)) = Inl e \<longrightarrow> middleware request = Inl e) \<and>
      (atob (js_string (authValue basicAuth)) = Inr ''calvin:calvin123'' \<longrightarrow>
         middleware request = Inr Next) \<and>
      (\<forall>decoded. atob (js_string (authValue basicAuth)) = Inr decoded \<and>
         (fst (userPwd decoded) \<noteq> Some ''calvin'' \<or> snd (userPwd decoded) \<noteq> Some ''calvin123'') \<longrightarrow>
         middleware request = Inr (rewriteToAuth request))) \<and>
   rewriteToAuth request = Rewrite \<lparr>pathname = ''/api/auth'', search = search (nextUrl request)\<rparr>"
proof (intro conjI allI impI)
  show "rewriteToAuth request = Rewrite \<lparr>pathname = ''/api/auth'', search = search (nextUrl request)\<rparr>"
    by (cases "nextUrl request") (simp add: rewriteToAuth_def)
next
  assume "authorization request = None \<or> authorization request = Some []"
  then show "middleware request = Inr (rewriteToAuth request)"
    by (auto simp add: middleware_def)
next
  fix basicAuth
  assume a: "authorization request = Some basicAuth \<and> basicAuth \<noteq> []"
  {
    assume "authValue basicAuth = None"
    then show "middleware request = Inl InvalidCharacterError"
      using a by (simp add: middleware_def js_string_def atob_undefined)
  next
    fix e assume "atob (js_string (authValue basicAuth)) = Inl e"
    then show "middleware request = Inl e"
      using a by (simp add: middleware_def)
  next
    assume "atob (js_string (authValue basicAuth)) = Inr ''calvin:calvin123''"
    then show "middleware request = Inr Next"
      using a by (simp add: middleware_def userPwd_calvin)
  next
    fix decoded
    assume "atob (js_string (authValue basicAuth)) = Inr decoded \<and>
         (fst (userPwd decoded) \<noteq> Some ''calvin'' \<or> snd (userPwd decoded) \<noteq> Some ''calvin123'')"
    then show "middleware request = Inr (rewriteToAuth request)"
      using a by (auto simp add: middleware_def split: prod.splits)
  }
qed

lemma bytes_string: "map of_char t = (bs :: nat list) \<Longrightarrow> map char_of bs = t"
  by (induction t arbitrary: bs) auto

lemma atob_eval:
  assumes "strip_padding (filter (\<lambda>c. \<not> ascii_whitespace c) s) = d"
    and "length d mod 4 \<noteq> 1"
    and "sextets d = Some vs"
    and "decode_sextets vs = map of_char t"
  shows "atob s = Inr t"
  using assms by (simp add: atob_def Let_def bytes_string)

lemma atob_calvin: "atob ''Y2FsdmluOmNhbHZpbjEyMw=='' = Inr ''calvin:calvin123''"
proof (rule atob_eval)
  show "strip_padding (filter (\<lambda>c. \<not> ascii_whitespace c) ''Y2FsdmluOmNhbHZpbjEyMw=='') = ''Y2FsdmluOmNhbHZpbjEyMw''"
    by (simp add: strip_padding_def ascii_whitespace_def)
  show "length ''Y2FsdmluOmNhbHZpbjEyMw'' mod 4 \<noteq> 1"
    by simp
  show "sextets ''Y2FsdmluOmNhbHZpbjEyMw'' = Some [24, 54, 5, 44, 29, 38, 37, 46, 14, 38, 13, 33, 27, 7, 25, 41, 27, 35, 4, 50, 12, 48]"
    by (simp add: b64_alphabet_def)
  show "decode_sextets [24, 54, 5, 44, 29, 38, 37, 46, 14, 38, 13, 33, 27, 7, 25, 41, 27, 35, 4, 50, 12, 48] = map of_char ''calvin:calvin123''"
    by (simp add: Let_def)
qed

lemma atob_calvin_x: "atob ''Y2FsdmluOmNhbHZpbjEyMzp4'' = Inr ''calvin:calvin123:x''"
proof (rule atob_eval)
  show "strip_padding (filter (\<lambda>c. \<not> ascii_whitespace c) ''Y2FsdmluOmNhbHZpbjEyMzp4'') = ''Y2FsdmluOmNhbHZpbjEyMzp4''"
    by (simp add: strip_padding_def ascii_whitespace_def)
  show "length ''Y2FsdmluOmNhbHZpbjEyMzp4'' mod 4 \<noteq> 1"
    by simp
  show "sextets ''Y2FsdmluOmNhbHZpbjEyMzp4'' = Some [24, 54, 5, 44, 29, 38, 37, 46, 14, 38, 13, 33, 27, 7, 25, 41, 27, 35, 4, 50, 12, 51, 41, 56]"
    by (simp add: b64_alphabet_def)
  show "decode_sextets [24, 54, 5, 44, 29, 38, 37, 46, 14, 38, 13, 33, 27, 7, 25, 41, 27, 35, 4, 50, 12, 51, 41, 56] = map of_char ''calvin:calvin123:x''"
    by (simp add: Let_def)
qed

lemma atob_secret: "atob ''Y2FsdmluOnNlY3JldA=='' = Inr ''calvin:secret''"
proof (rule atob_eval)
  show "strip_padding (filter (\<lambda>c. \<not> ascii_whitespace c) ''Y2FsdmluOnNlY3JldA=='') = ''Y2FsdmluOnNlY3JldA''"
    by (simp add: strip_padding_def ascii_whitespace_def)
  show "length ''Y2FsdmluOnNlY3JldA'' mod 4 \<noteq> 1"
    by simp
  show "sextets ''Y2FsdmluOnNlY3JldA'' = Some [24, 54, 5, 44, 29, 38, 37, 46, 14, 39, 13, 37, 24, 55, 9, 37, 29, 0]"
    by (simp add: b64_alphabet_def)
  show "decode_sextets [24, 54, 5, 44, 29, 38, 37, 46, 14, 39, 13, 37, 24, 55, 9, 37, 29, 0] = map of_char ''calvin:secret''"
    by (simp add: Let_def)
qed

lemma example_tokens:
  "authValue ''Basic Y2FsdmluOmNhbHZpbjEyMw=='' = Some ''Y2FsdmluOmNhbHZpbjEyMw==''"
  "authValue ''Basic Y2FsdmluOmNhbHZpbjEyMzp4'' = Some ''Y2FsdmluOmNhbHZpbjEyMzp4''"
  "authValue ''Basic Y2FsdmluOnNlY3JldA=='' = Some ''Y2FsdmluOnNlY3JldA==''"
  "authValue ''Basic  Y2FsdmluOmNhbHZpbjEyMw=='' = Some []"
  "authValue ''Basic'' = None"
  by (simp_all add: authValue_def)

lemma example_fields:
  "userPwd ''calvin:secret'' = (Some ''calvin'', Some ''secret'')"
  "userPwd ''calvin:calvin123:x'' = (Some ''calvin'', Some ''calvin123'')"
  "userPwd [] = (Some [], None)"
  by (simp_all add: userPwd_def)

lemma atob_empty: "atob [] = Inr []"
  by (simp add: atob_def strip_padding_def)

lemma request_with_simps:
  "authorization (request_with h) = h" "search (nextUrl (request_with h)) = []"
  "rewriteToAuth (request_with h) = Rewrite \<lparr>pathname = ''/api/auth'', search = []\<rparr>"
  by (simp_all add: request_with_def rewriteToAuth_def)

theorem middleware_gate_witness:
  "middleware (request_with None) = Inr (Rewrite \<lparr>pathname = ''/api/auth'', search = []\<rparr>) \<and>
   middleware (request_with (Some ''Basic'')) = Inl InvalidCharacterError \<and>
   middleware (request_with (Some ''Basic Y2FsdmluOmNhbHZpbjEyMw=='')) = Inr Next \<and>
   middleware (request_with (Some ''Basic Y2FsdmluOnNlY3JldA=='')) =
     Inr (Rewrite \<lparr>pathname = ''/api/auth'', search = []\<rparr>)"
proof -
  note t0 = middleware_gate [of "request_with None"]
  note t1 = middleware_gate [of "request_with (Some ''Basic'')"]
  note t2 = middleware_gate [of "request_with (Some ''Basic Y2FsdmluOmNhbHZpbjEyMw=='')"]
  note t3 = middleware_gate [of "request_with (Some ''Basic Y2FsdmluOnNlY3JldA=='')"]
  from t0 have 0: "middleware (request_with None) =
      Inr (Rewrite \<lparr>pathname = ''/api/auth'', search = []\<rparr>)"
    by (simp add: request_with_simps)
  from t1 have 1: "middleware (request_with (Some ''Basic'')) = Inl InvalidCharacterError"
    by (simp add: request_with_simps example_tokens)
  from t2 have 2: "middleware (request_with (Some ''Basic Y2FsdmluOmNhbHZpbjEyMw=='')) = Inr Next"
    by (simp add: request_with_simps example_tokens js_string_def atob_calvin)
  from t3 have 3: "middleware (request_with (Some ''Basic Y2FsdmluOnNlY3JldA=='')) =
      Inr (Rewrite \<lparr>pathname = ''/api/auth'', search = []\<rparr>)"
    by (simp add: request_with_simps example_tokens js_string_def atob_secret example_fields)
  show ?thesis
    by (intro conjI 0 1 2 3)
qed

text \<open>
  Two requests on which the stated rule fails. The token of the first decodes to
  \<open>calvin:calvin123:x\<close>, not to \<open>calvin:calvin123\<close>, and the request passes through. The
  second header has two spaces after the scheme: its second whitespace-separated token
  decodes to \<open>calvin:calvin123\<close>, and the request is rewritten.
\<close>

theorem middleware_counterexample:
  "atob ''Y2FsdmluOmNhbHZpbjEyMzp4'' = Inr ''calvin:calvin123:x'' \<and>
   ''calvin:calvin123:x'' \<noteq> ''calvin:calvin123'' \<and>
   middleware (request_with (Some ''Basic Y2FsdmluOmNhbHZpbjEyMzp4'')) = Inr Next \<and>
   whitespace_tokens ''Basic  Y2FsdmluOmNhbHZpbjEyMw=='' = [''Basic'', ''Y2FsdmluOmNhbHZpbjEyMw==''] \<and>
   atob ''Y2FsdmluOmNhbHZpbjEyMw=='' = Inr ''calvin:calvin123'' \<and>
   middleware (request_with (Some ''Basic  Y2FsdmluOmNhbHZpbjEyMw=='')) =
     Inr (Rewrite \<lparr>pathname = ''/api/auth'', search = []\<rparr>)"
proof -
  have 1: "middleware (request_with (Some ''Basic Y2FsdmluOmNhbHZpbjEyMzp4'')) = Inr Next"
    by (simp add: middleware_def request_with_simps example_tokens js_string_def atob_calvin_x
        example_fields)
  have 2: "whitespace_tokens ''Basic  Y2FsdmluOmNhbHZpbjEyMw=='' =
      [''Basic'', ''Y2FsdmluOmNhbHZpbjEyMw=='']"
    by (simp add: whitespace_tokens_def ascii_whitespace_def)
  have 3: "middleware (request_with (Some ''Basic  Y2FsdmluOmNhbHZpbjEyMw=='')) =
      Inr (Rewrite \<lparr>pathname = ''/api/auth'', search = []\<rparr>)"
    by (simp add: middleware_def request_with_simps example_tokens js_string_def atob_empty
        example_fields)
  have 4: "''calvin:calvin123:x'' \<noteq> ''calvin:calvin123''"
    by simp
  show ?thesis
    by (intro conjI atob_calvin_x atob_calvin 1 2 3 4)
qed

end
